theory Spec2Isabelle
  imports Complex_Main "HOL-Library.Word" "HOL-Library.Log_Nat"
begin

section \<open>Numeric values and Python errors\<close>

text \<open>
  The pipeline computes on numpy float arrays. A finite value is modelled as an exact
  real: float64 rounding and signed zeros are not modelled, while the rounding to
  float32 of a value stored in a FITS file is (\<open>to_float32\<close> below), where it decides
  which element a search selects. The three non-finite values that numpy produces instead
  of raising (a median, mean or standard deviation of an empty selection is \<open>nan\<close>, a
  division by zero is \<open>inf\<close>, \<open>-inf\<close> or \<open>nan\<close>) are kept as constructors of their
  own, because the code branches and selects on them.
\<close>

datatype npfloat = Fin real | PInf | NInf | NaN

datatype py_error = ValueError | IndexError | UnboundLocalError | OverflowError

fun is_fin :: "npfloat \<Rightarrow> bool" where
  "is_fin (Fin _) = True"
| "is_fin _ = False"

fun fin_val :: "npfloat \<Rightarrow> real" where
  "fin_val (Fin r) = r"
| "fin_val _ = 0"

text \<open>IEEE comparison \<open>a <= b\<close>: every comparison with \<open>nan\<close> is false.\<close>

fun np_le :: "npfloat \<Rightarrow> npfloat \<Rightarrow> bool" where
  "np_le NaN _ = False"
| "np_le _ NaN = False"
| "np_le NInf _ = True"
| "np_le _ PInf = True"
| "np_le (Fin a) (Fin b) = (a \<le> b)"
| "np_le _ _ = False"

text \<open>IEEE subtraction, absolute value and division on these values.\<close>

fun np_sub_f :: "npfloat \<Rightarrow> npfloat \<Rightarrow> npfloat" where
  "np_sub_f NaN _ = NaN"
| "np_sub_f _ NaN = NaN"
| "np_sub_f (Fin a) (Fin b) = Fin (a - b)"
| "np_sub_f (Fin a) PInf = NInf"
| "np_sub_f (Fin a) NInf = PInf"
| "np_sub_f PInf PInf = NaN"
| "np_sub_f PInf _ = PInf"
| "np_sub_f NInf NInf = NaN"
| "np_sub_f NInf _ = NInf"

fun np_abs_f :: "npfloat \<Rightarrow> npfloat" where
  "np_abs_f (Fin a) = Fin \<bar>a\<bar>"
| "np_abs_f PInf = PInf"
| "np_abs_f NInf = PInf"
| "np_abs_f NaN = NaN"

fun np_div_f :: "npfloat \<Rightarrow> npfloat \<Rightarrow> npfloat" where
  "np_div_f NaN _ = NaN"
| "np_div_f _ NaN = NaN"
| "np_div_f (Fin a) (Fin b) =
     (if b \<noteq> 0 then Fin (a / b) else if 0 < a then PInf else if a < 0 then NInf else NaN)"
| "np_div_f (Fin a) _ = Fin 0"
| "np_div_f PInf (Fin b) = (if 0 \<le> b then PInf else NInf)"
| "np_div_f NInf (Fin b) = (if 0 \<le> b then NInf else PInf)"
| "np_div_f _ _ = NaN"

text \<open>
  \<open>array.astype(np.float32)\<close> on one value: round to the nearest number with a 24-bit
  significand, ties to the even significand; the exponent of a subnormal result is fixed
  at \<open>-126\<close>, and a result of \<open>2 ^ 128\<close> or more is an infinity. \<open>binade x\<close> is the
  integer \<open>e\<close> with \<open>2 ^ e \<le> x < 2 ^ (e + 1)\<close>, for positive \<open>x\<close>.
\<close>

definition binade :: "real \<Rightarrow> int" where
  "binade x = (if 1 \<le> x then bitlen \<lfloor>x\<rfloor> - 1 else - bitlen (\<lceil>1 / x\<rceil> - 1))"

definition pow2 :: "int \<Rightarrow> real" where
  "pow2 e = (if 0 \<le> e then 2 ^ nat e else 1 / 2 ^ nat (- e))"

definition round_half_even :: "real \<Rightarrow> int" where
  "round_half_even q =
     (if q - of_int \<lfloor>q\<rfloor> < 1 / 2 then \<lfloor>q\<rfloor>
      else if 1 / 2 < q - of_int \<lfloor>q\<rfloor> then \<lfloor>q\<rfloor> + 1
      else if even \<lfloor>q\<rfloor> then \<lfloor>q\<rfloor> else \<lfloor>q\<rfloor> + 1)"

definition to_float32 :: "real \<Rightarrow> npfloat" where
  "to_float32 x =
     (if x = 0 then Fin 0
      else let ulp = pow2 (max (binade \<bar>x\<bar>) (- 126) - 23);
               y = of_int (round_half_even (\<bar>x\<bar> / ulp)) * ulp
           in if 2 ^ 128 \<le> y then (if 0 < x then PInf else NInf)
              else Fin (if 0 < x then y else - y))"

fun f32 :: "npfloat \<Rightarrow> npfloat" where
  "f32 (Fin x) = to_float32 x"
| "f32 v = v"

text \<open>Python's \<open>int(x)\<close> on a float truncates towards zero.\<close>

definition py_int :: "real \<Rightarrow> int" where
  "py_int x = (if 0 \<le> x then \<lfloor>x\<rfloor> else \<lceil>x\<rceil>)"

text \<open>
  \<open>np.argmin\<close>: the index of the first minimum; the scan stops at the first \<open>nan\<close>,
  which counts as the minimum. An empty array raises \<open>ValueError\<close>.
\<close>

fun argmin_scan :: "npfloat \<Rightarrow> nat \<Rightarrow> nat \<Rightarrow> npfloat list \<Rightarrow> nat" where
  "argmin_scan mp min_ind i [] = min_ind"
| "argmin_scan mp min_ind i (x # xs) =
     (if mp = NaN then min_ind
      else if \<not> np_le mp x then argmin_scan x i (Suc i) xs
      else argmin_scan mp min_ind (Suc i) xs)"

fun np_argmin :: "npfloat list \<Rightarrow> py_error + nat" where
  "np_argmin [] = Inl ValueError"
| "np_argmin (x # xs) = Inr (argmin_scan x 0 1 xs)"

text \<open>
  What numpy documents for \<open>argmin\<close>, to compare with the scan above: \<open>k\<close> is the
  first index that holds a \<open>nan\<close>, or, when there is no \<open>nan\<close>, the first index of a
  least element.
\<close>

definition first_minimum :: "npfloat list \<Rightarrow> nat \<Rightarrow> bool" where
  "first_minimum zs k =
     (k < length zs
      \<and> ((zs ! k = NaN \<and> (\<forall>j < k. zs ! j \<noteq> NaN))
         \<or> ((\<forall>j < length zs. zs ! j \<noteq> NaN \<and> np_le (zs ! k) (zs ! j))
            \<and> (\<forall>j < k. \<not> np_le (zs ! j) (zs ! k)))))"

text \<open>
  Reading element \<open>i\<close> of a one-dimensional array: an index in \<open>[-n, 0)\<close> counts from
  the end, anything outside \<open>[-n, n)\<close> raises \<open>IndexError\<close>.
\<close>

definition np_get :: "'a list \<Rightarrow> int \<Rightarrow> py_error + 'a" where
  "np_get xs i =
     (if 0 \<le> i \<and> i < int (length xs) then Inr (xs ! nat i)
      else if i < 0 \<and> - int (length xs) \<le> i then Inr (xs ! nat (int (length xs) + i))
      else Inl IndexError)"

section \<open>find_nearest\<close>

text \<open>
  \<open>find_nearest(array, value, output='index', constraint=None)\<close>. The argument
  \<open>array\<close> is an \<open>np.ndarray\<close>, a \<open>list\<close> or anything else, which raises
  \<open>ValueError\<close>. An \<open>np.ndarray\<close> is its shape and its elements in row-major order,
  with one of the element types float64, float32 and uint8; a list is a list of Python
  floats, which \<open>np.array\<close> turns into a one-dimensional float64 array. \<open>value\<close> is a
  Python float or a Python int.
\<close>

datatype np_data = Float64 "npfloat list" | Float32 "npfloat list" | UInt8 "8 word list"

datatype py_value = PyFloat npfloat | PyInt int

datatype py_array = NdArray "nat list" np_data | PyList "npfloat list" | OtherObject

datatype nearest_result = OutIndex int | OutValue py_array | OutBoth py_array int

text \<open>
  \<open>array - value\<close> and \<open>value - array\<close>, element by element, each result read as a
  float for the comparisons that follow. A Python scalar does not change the element type
  of a float array, so on a float32 array the scalar is rounded to float32 and so is each
  difference. A Python float turns a uint8 array into float64. A Python int in
  \<open>[0, 255]\<close> keeps a uint8 array in uint8, where the subtraction wraps around modulo
  256; a Python int outside this range raises \<open>OverflowError\<close> (NumPy 2; earlier
  releases widen the integer type instead).
\<close>

fun float_of_value :: "py_value \<Rightarrow> npfloat" where
  "float_of_value (PyFloat v) = v"
| "float_of_value (PyInt n) = Fin (of_int n)"

fun array_minus_value :: "np_data \<Rightarrow> py_value \<Rightarrow> py_error + npfloat list" where
  "array_minus_value (Float64 xs) v = Inr (map (\<lambda>a. np_sub_f a (float_of_value v)) xs)"
| "array_minus_value (Float32 xs) v =
     Inr (map (\<lambda>a. f32 (np_sub_f a (f32 (float_of_value v)))) xs)"
| "array_minus_value (UInt8 ws) (PyFloat v) =
     Inr (map (\<lambda>w. np_sub_f (Fin (real (unat w))) v) ws)"
| "array_minus_value (UInt8 ws) (PyInt n) =
     (if 0 \<le> n \<and> n \<le> 255 then Inr (map (\<lambda>w. Fin (real (unat (w - word_of_int n)))) ws)
      else Inl OverflowError)"

fun value_minus_array :: "py_value \<Rightarrow> np_data \<Rightarrow> py_error + npfloat list" where
  "value_minus_array v (Float64 xs) = Inr (map (\<lambda>a. np_sub_f (float_of_value v) a) xs)"
| "value_minus_array v (Float32 xs) =
     Inr (map (\<lambda>a. f32 (np_sub_f (f32 (float_of_value v)) a)) xs)"
| "value_minus_array (PyFloat v) (UInt8 ws) =
     Inr (map (\<lambda>w. np_sub_f v (Fin (real (unat w)))) ws)"
| "value_minus_array (PyInt n) (UInt8 ws) =
     (if 0 \<le> n \<and> n \<le> 255 then Inr (map (\<lambda>w. Fin (real (unat (word_of_int n - w)))) ws)
      else Inl OverflowError)"

text \<open>
  \<open>array[idx]\<close> for an integer \<open>idx\<close>: the index selects along the first axis. A
  zero-dimensional array cannot be indexed; on a one-dimensional array the result is a
  scalar, written as a zero-dimensional array; otherwise it is the sub-array \<open>idx\<close>.
\<close>

fun data_slice :: "nat \<Rightarrow> nat \<Rightarrow> np_data \<Rightarrow> np_data" where
  "data_slice lo n (Float64 xs) = Float64 (take n (drop lo xs))"
| "data_slice lo n (Float32 xs) = Float32 (take n (drop lo xs))"
| "data_slice lo n (UInt8 ws) = UInt8 (take n (drop lo ws))"

fun np_item :: "nat list \<Rightarrow> np_data \<Rightarrow> int \<Rightarrow> py_error + py_array" where
  "np_item [] d idx = Inl IndexError"
| "np_item (n # rest) d idx =
     (if 0 \<le> idx \<and> idx < int n
        then Inr (NdArray rest (data_slice (nat idx * prod_list rest) (prod_list rest) d))
      else if idx < 0 \<and> - int n \<le> idx
        then Inr (NdArray rest
               (data_slice (nat (int n + idx) * prod_list rest) (prod_list rest) d))
      else Inl IndexError)"

text \<open>
  The truth value of a comparison \<open>a < 0\<close> on the result of an element access: defined for
  a single element, \<open>ValueError\<close> for an array of several.
\<close>

fun negative_truth :: "npfloat list \<Rightarrow> py_error + bool" where
  "negative_truth [a] = Inr (case a of Fin r \<Rightarrow> r < 0 | NInf \<Rightarrow> True | _ \<Rightarrow> False)"
| "negative_truth _ = Inl ValueError"

fun elem_minus_value_neg :: "py_array \<Rightarrow> py_value \<Rightarrow> py_error + bool" where
  "elem_minus_value_neg (NdArray sh d) v =
     (case array_minus_value d v of Inl e \<Rightarrow> Inl e | Inr ds \<Rightarrow> negative_truth ds)"
| "elem_minus_value_neg _ v = Inl ValueError"

fun value_minus_elem_neg :: "py_value \<Rightarrow> py_array \<Rightarrow> py_error + bool" where
  "value_minus_elem_neg v (NdArray sh d) =
     (case value_minus_array v d of Inl e \<Rightarrow> Inl e | Inr ds \<Rightarrow> negative_truth ds)"
| "value_minus_elem_neg v _ = Inl ValueError"

text \<open>
  The two adjustment branches test \<open>type == 'ceil'\<close> and \<open>type == 'floor'\<close>, where
  \<open>type\<close> is the Python builtin, not the parameter \<open>constraint\<close>: comparing the builtin
  with a string is \<open>False\<close>, and \<open>and\<close> does not evaluate its right operand then. The
  branches are kept in the model with that test. \<open>argmin\<close> works on the flattened array.
\<close>

definition builtin_type_eq :: "string \<Rightarrow> bool" where
  "builtin_type_eq s = False"

definition py_and :: "bool \<Rightarrow> py_error + bool \<Rightarrow> py_error + bool" where
  "py_and a b = (if a then b else Inr False)"

definition find_nearest_arr ::
  "nat list \<Rightarrow> np_data \<Rightarrow> py_value \<Rightarrow> string \<Rightarrow> string option \<Rightarrow> py_error + nearest_result" where
  "find_nearest_arr sh d v output constraint =
     (case array_minus_value d v of
        Inl e \<Rightarrow> Inl e
      | Inr ds \<Rightarrow>
     (case np_argmin (map np_abs_f ds) of
        Inl e \<Rightarrow> Inl e
      | Inr idx0 \<Rightarrow>
     (case py_and (builtin_type_eq ''ceil'')
             (case np_item sh d (int idx0) of
                Inl e \<Rightarrow> Inl e | Inr a \<Rightarrow> elem_minus_value_neg a v) of
        Inl e \<Rightarrow> Inl e
      | Inr ceil_test \<Rightarrow>
     (case (if ceil_test then Inr False
            else py_and (builtin_type_eq ''floor'')
                   (case np_item sh d (int idx0) of
                      Inl e \<Rightarrow> Inl e | Inr a \<Rightarrow> value_minus_elem_neg v a)) of
        Inl e \<Rightarrow> Inl e
      | Inr floor_test \<Rightarrow>
          (let idx = (if ceil_test then int idx0 + 1
                      else if floor_test then int idx0 - 1 else int idx0)
           in if output = ''index'' then Inr (OutIndex idx)
              else (case np_item sh d idx of
                      Inl e \<Rightarrow> Inl e
                    | Inr a \<Rightarrow> if output = ''value'' then Inr (OutValue a)
                               else Inr (OutBoth a idx)))))))"

fun find_nearest ::
  "py_array \<Rightarrow> py_value \<Rightarrow> string \<Rightarrow> string option \<Rightarrow> py_error + nearest_result" where
  "find_nearest (NdArray sh d) v output constraint = find_nearest_arr sh d v output constraint"
| "find_nearest (PyList xs) v output constraint =
     find_nearest_arr [length xs] (Float64 xs) v output constraint"
| "find_nearest OtherObject v output constraint = Inl ValueError"

section \<open>get_final_sz\<close>

text \<open>
  \<open>raw_dataset.get_final_sz\<close>: \<open>agpm_pos\<close> is a pair of pixel indices, \<open>com_sz\<close> the
  common frame size, \<open>shadow_r\<close> the radius of the coronagraph shadow (a float) and
  \<open>final_sz\<close> the optional cap given by the caller.
\<close>

definition get_final_sz :: "int \<times> int \<Rightarrow> int \<Rightarrow> real \<Rightarrow> int option \<Rightarrow> int" where
  "get_final_sz agpm_pos com_sz shadow_r final_sz =
     (let final_sz_ori =
            (case final_sz of
               None \<Rightarrow>
                 min (2 * fst agpm_pos - 1) (min (2 * snd agpm_pos - 1)
                   (min (2 * (com_sz - fst agpm_pos) - 1)
                     (min (2 * (com_sz - snd agpm_pos) - 1) (py_int (2 * shadow_r)))))
             | Some cap \<Rightarrow>
                 min (2 * fst agpm_pos - 1) (min (2 * snd agpm_pos - 1)
                   (min (2 * (com_sz - fst agpm_pos) - 1)
                     (min (2 * (com_sz - snd agpm_pos) - 1)
                       (min (py_int (2 * shadow_r)) cap)))))
      in if final_sz_ori mod 2 = 0 then final_sz_ori - 1 else final_sz_ori)"

section \<open>numpy reductions\<close>

text \<open>
  \<open>np.median\<close> and \<open>np.std\<close> of a one-dimensional selection. On an empty
  selection numpy warns and returns \<open>nan\<close>; it does not raise. \<open>np.std\<close> is the population
  standard deviation (\<open>ddof = 0\<close>).
\<close>

definition median_val :: "real list \<Rightarrow> real" where
  "median_val xs =
     (let s = sort xs; n = length xs
      in if odd n then s ! (n div 2) else (s ! (n div 2 - 1) + s ! (n div 2)) / 2)"

definition np_median :: "real list \<Rightarrow> npfloat" where
  "np_median xs = (if xs = [] then NaN else Fin (median_val xs))"

definition mean_val :: "real list \<Rightarrow> real" where
  "mean_val xs = sum_list xs / real (length xs)"

definition std_val :: "real list \<Rightarrow> real" where
  "std_val xs = sqrt (sum_list (map (\<lambda>x. (x - mean_val xs)\<^sup>2) xs) / real (length xs))"

definition np_std :: "real list \<Rightarrow> npfloat" where
  "np_std xs = (if xs = [] then NaN else Fin (std_val xs))"

text \<open>Float arithmetic \<open>p * m\<close> and \<open>a / f\<close> where one operand may be non-finite.\<close>

fun np_mul :: "real \<Rightarrow> npfloat \<Rightarrow> npfloat" where
  "np_mul p (Fin m) = Fin (p * m)"
| "np_mul p PInf = (if 0 < p then PInf else if p < 0 then NInf else NaN)"
| "np_mul p NInf = (if 0 < p then NInf else if p < 0 then PInf else NaN)"
| "np_mul p NaN = NaN"

fun np_div :: "npfloat \<Rightarrow> real \<Rightarrow> npfloat" where
  "np_div (Fin a) f =
     (if f \<noteq> 0 then Fin (a / f) else if 0 < a then PInf else if a < 0 then NInf else NaN)"
| "np_div PInf f = (if 0 \<le> f then PInf else NInf)"
| "np_div NInf f = (if 0 \<le> f then NInf else PInf)"
| "np_div NaN f = NaN"

text \<open>Sequencing of steps that may raise: the first error ends the run.\<close>

definition bind_err :: "py_error + 'a \<Rightarrow> ('a \<Rightarrow> py_error + 'b) \<Rightarrow> py_error + 'b" where
  "bind_err m f = (case m of Inl e \<Rightarrow> Inl e | Inr x \<Rightarrow> f x)"

definition raise_if :: "bool \<Rightarrow> py_error \<Rightarrow> py_error + unit" where
  "raise_if b e = (if b then Inl e else Inr ())"

fun map_err :: "('a \<Rightarrow> py_error + 'b) \<Rightarrow> 'a list \<Rightarrow> py_error + 'b list" where
  "map_err f [] = Inr []"
| "map_err f (x # xs) =
     (case f x of
        Inl e \<Rightarrow> Inl e
      | Inr y \<Rightarrow> (case map_err f xs of Inl e \<Rightarrow> Inl e | Inr ys \<Rightarrow> Inr (y # ys)))"

section \<open>first_frames_removal\<close>

text \<open>
  A frame is its pixels in row-major order, a cube a list of frames. Every cube read by
  \<open>first_frames_removal\<close> (\<open>2_bpix_corr2_*\<close>) ends with one extra frame, the median of
  the others, so a cube of \<open>n + 1\<close> frames has \<open>real_ndit = n\<close>. All frames of a dataset
  are taken to have the same shape. \<open>get_annulus_segments(frame, inner, width,
  mode = 'mask')[0]\<close> zeroes the pixels outside the annulus; the annulus is given as the
  list of flags \<open>annulus\<close>, and the measured flux is the sum of the pixels inside.
\<close>

type_synonym frame = "real list"
type_synonym cube = "frame list"
type_synonym out_frame = "npfloat list"

record ffr_input =
  sci :: "cube list"
  sky :: "cube list"
  unsat :: "cube list"
  ndit_sci :: "int list"
  ndit_sky :: "int list"
  ndit_unsat :: "int list"
  fast_reduction :: bool
  plot :: bool
  annulus :: "bool list"

record ffr_output =
  nfr_rm :: nat
  new_ndit_sci :: int
  new_ndit_sky :: int
  new_ndit_unsat :: int
  rmfr_sci :: "out_frame list list"
  rmfr_sky :: "out_frame list list"
  rmfr_unsat :: "cube list"

definition annulus_flux :: "bool list \<Rightarrow> frame \<Rightarrow> real" where
  "annulus_flux ann fr = sum_list (map (\<lambda>(m, p). if m then p else 0) (zip ann fr))"

definition real_ndit :: "cube \<Rightarrow> int" where
  "real_ndit c = int (length c) - 1"

text \<open>
  \<open>tmp_fluxes[sc, ii]\<close> for \<open>ii < min_ndit_sci\<close> (all ones in a fast reduction), and
  \<open>np.median(tmp_fluxes, axis = 0)\<close>; there is at least one science cube when it is
  computed, so no column is empty.
\<close>

definition sci_fluxes :: "bool \<Rightarrow> bool list \<Rightarrow> nat \<Rightarrow> cube list \<Rightarrow> real list list" where
  "sci_fluxes fast ann min_ndit_sci cubes =
     (if fast then map (\<lambda>c. replicate min_ndit_sci 1) cubes
      else map (\<lambda>c. map (\<lambda>ii. annulus_flux ann (c ! ii)) [0..<min_ndit_sci]) cubes)"

definition median_axis0 :: "nat \<Rightarrow> real list list \<Rightarrow> real list" where
  "median_axis0 ncol rows = map (\<lambda>ii. median_val (map (\<lambda>row. row ! ii) rows)) [0..<ncol]"

text \<open>
  The test of the loop at lines 1909-1921: frame-index \<open>ii\<close> is plotted as bad when its
  median flux is above \<open>med_flux + 2 * std_flux\<close>, below \<open>med_flux - 2 * std_flux\<close>, or
  \<open>ii == 0\<close>. \<open>nfr_rm\<close> is assigned at the first index that is not bad and only there;
  when no index is good the name stays unbound.
\<close>

definition flagged :: "real \<Rightarrow> real \<Rightarrow> nat \<Rightarrow> real \<Rightarrow> bool" where
  "flagged med_flux std_flux ii x =
     (x > med_flux + 2 * std_flux \<or> x < med_flux - 2 * std_flux \<or> ii = 0)"

fun find_nfr_rm :: "real \<Rightarrow> real \<Rightarrow> nat \<Rightarrow> real list \<Rightarrow> nat option" where
  "find_nfr_rm med_flux std_flux ii [] = None"
| "find_nfr_rm med_flux std_flux ii (x # xs) =
     (if flagged med_flux std_flux ii x then find_nfr_rm med_flux std_flux (Suc ii) xs
      else Some (min ii 10))"

definition estimate_nfr_rm :: "real list \<Rightarrow> nat option" where
  "estimate_nfr_rm tmp_flux_med =
     (case (np_median tmp_flux_med, np_std tmp_flux_med) of
        (Fin med_flux, Fin std_flux) \<Rightarrow> find_nfr_rm med_flux std_flux 0 tmp_flux_med
      | _ \<Rightarrow> None)"

text \<open>
  \<open>tmp[dd] * np.median(row) / row[dd]\<close>, pixel by pixel, evaluated left to right.
\<close>

definition scale_frame :: "frame \<Rightarrow> npfloat \<Rightarrow> real \<Rightarrow> out_frame" where
  "scale_frame fr med flux = map (\<lambda>p. np_div (np_mul p med) flux) fr"

text \<open>
  Lines 1958-1964, one science cube: \<open>np.zeros\<close> rejects a negative frame count, and
  \<open>tmp_fluxes[sc, dd]\<close> is out of range as soon as \<open>dd\<close> reaches the number of measured
  frames. The median is taken over the whole row \<open>tmp_fluxes[sc]\<close>.
\<close>

definition rescale_sci :: "nat \<Rightarrow> int \<Rightarrow> real list \<Rightarrow> cube \<Rightarrow> py_error + out_frame list" where
  "rescale_sci nfr cnt row c =
     (if cnt < 0 then Inl ValueError
      else if 0 < cnt \<and> (nfr + nat cnt > length c \<or> nfr + nat cnt > length row)
        then Inl IndexError
      else Inr (map (\<lambda>dd. scale_frame (c ! dd) (np_median row) (row ! dd))
                  [nfr..<nfr + nat cnt]))"

text \<open>
  Lines 2033-2041, one sky cube (not in a fast reduction): the fluxes of the frames
  \<open>nfr_rm .. nfr_rm + new_ndit_sky - 1\<close>, stored from index 0.
\<close>

definition measure_sky :: "bool list \<Rightarrow> nat \<Rightarrow> int \<Rightarrow> cube \<Rightarrow> py_error + real list" where
  "measure_sky ann nfr new_sky c =
     (if 0 < new_sky \<and> nfr + nat new_sky > length c then Inl IndexError
      else Inr (map (\<lambda>ii. annulus_flux ann (c ! ii)) [nfr..<nfr + nat new_sky]))"

text \<open>
  Lines 2057-2063, one sky cube: the flux of frame \<open>dd\<close> is read at \<open>dd - nfr_rm\<close>, and
  the median is taken over \<open>tmp_fluxes_sky[sk, nfr_rm:]\<close>.
\<close>

definition rescale_sky :: "nat \<Rightarrow> int \<Rightarrow> real list \<Rightarrow> cube \<Rightarrow> py_error + out_frame list" where
  "rescale_sky nfr cnt row c =
     (if cnt < 0 then Inl ValueError
      else if 0 < cnt \<and> (nfr + nat cnt > length c \<or> nat cnt > length row)
        then Inl IndexError
      else Inr (map (\<lambda>dd. scale_frame (c ! dd) (np_median (drop nfr row)) (row ! (dd - nfr)))
                  [nfr..<nfr + nat cnt]))"

text \<open>
  The whole method. Left out: the plots themselves, the rotation-angle file (cropped by
  \<open>angles[:, nfr_rm:]\<close>), the deletion of the input files, and the values of the two flux
  re-measurements after the rescaling, which feed only the plots; the index checks of these
  re-measurements are kept, since they can end the run. \<open>plot\<close> is the truth value of the
  argument \<open>plot\<close> (\<open>'save'\<close> by default, \<open>None\<close> for no plots).
\<close>

definition first_frames_removal :: "ffr_input \<Rightarrow> py_error + ffr_output" where
  "first_frames_removal d =
     bind_err (raise_if (sci d = [] \<or> [] \<in> set (sci d) \<or> [] \<in> set (sky d)) IndexError) (\<lambda>_.
     let real_ndit_sci = map real_ndit (sci d);
         real_ndit_sky = map real_ndit (sky d);
         min_ndit_sci = nat (min_list real_ndit_sci);
         tmp_fluxes = sci_fluxes (fast_reduction d) (annulus d) min_ndit_sci (sci d)
     in
     bind_err (if fast_reduction d then Inr 0
               else (case estimate_nfr_rm (median_axis0 min_ndit_sci tmp_fluxes) of
                       None \<Rightarrow> Inl UnboundLocalError
                     | Some n \<Rightarrow> Inr n)) (\<lambda>nfr.
     bind_err (raise_if (ndit_sci d = [] \<or> sky d = [] \<or> ndit_sky d = [] \<or> ndit_unsat d = [])
                 ValueError) (\<lambda>_.
     let cnt_sci = map (\<lambda>r. min (r - int nfr) (min_list (ndit_sci d) - int nfr)) real_ndit_sci;
         cnt_sky = min_list real_ndit_sky - int nfr;
         new_sci = min_list (ndit_sci d) - int nfr;
         new_sky = min_list (ndit_sky d) - int nfr;
         new_unsat = min_list (ndit_unsat d) - int nfr
     in
     bind_err (map_err (\<lambda>(c, row, cnt). rescale_sci nfr cnt row c)
                 (zip (sci d) (zip tmp_fluxes cnt_sci))) (\<lambda>sci_out.
     bind_err (raise_if (new_sci < 0) ValueError) (\<lambda>_.
     bind_err (raise_if (\<exists>c \<in> set sci_out. new_sci > int (length c)) IndexError) (\<lambda>_.
     bind_err (raise_if (\<not> fast_reduction d \<and> int min_ndit_sci - int nfr > new_sci)
                 IndexError) (\<lambda>_.
     bind_err (raise_if (new_sky < 0) ValueError) (\<lambda>_.
     bind_err (if fast_reduction d then Inr (map (\<lambda>c. replicate (nat new_sky) 1) (sky d))
               else map_err (measure_sky (annulus d) nfr new_sky) (sky d)) (\<lambda>tmp_fluxes_sky.
     bind_err (map_err (\<lambda>(c, row). rescale_sky nfr cnt_sky row c)
                 (zip (sky d) tmp_fluxes_sky)) (\<lambda>sky_out.
     bind_err (raise_if (plot d \<and> (\<exists>c \<in> set sky_out. new_sky > int (length c)))
                 IndexError) (\<lambda>_.
     Inr \<lparr> nfr_rm = nfr, new_ndit_sci = new_sci, new_ndit_sky = new_sky,
           new_ndit_unsat = new_unsat, rmfr_sci = sci_out, rmfr_sky = sky_out,
           rmfr_unsat = map (\<lambda>c. drop nfr (butlast c)) (unsat d) \<rparr>)))))))))))"

section \<open>subtract_sky: the dust features\<close>

text \<open>
  Lines 2361-2418. The detection collaborator returns a table of positions \<open>y\<close>, \<open>x\<close> and
  a signal-to-noise ratio \<open>px_snr\<close>, which may be \<open>nan\<close>. \<open>cy\<close>, \<open>cx\<close> is the frame centre
  and \<open>fwhm\<close> the stellar FWHM read from \<open>fwhm.fits\<close>. A position is a pair \<open>(x, y)\<close>, as
  in the source.
\<close>

record detection =
  det_y :: real
  det_x :: real
  px_snr :: npfloat

text \<open>IEEE comparisons \<open>a > b\<close> and \<open>a < b\<close> of a float with a finite constant.\<close>

fun np_gt :: "npfloat \<Rightarrow> real \<Rightarrow> bool" where
  "np_gt (Fin a) b = (a > b)"
| "np_gt PInf b = True"
| "np_gt NInf b = False"
| "np_gt NaN b = False"

fun np_lt :: "npfloat \<Rightarrow> real \<Rightarrow> bool" where
  "np_lt (Fin a) b = (a < b)"
| "np_lt PInf b = False"
| "np_lt NInf b = True"
| "np_lt NaN b = False"

definition snr_thr :: real where "snr_thr = 10"

definition snr_thr_all :: real where "snr_thr_all = 30"

definition off_centre :: "real \<Rightarrow> real \<Rightarrow> real \<Rightarrow> detection \<Rightarrow> bool" where
  "off_centre cy cx fwhm d =
     (px_snr d \<noteq> NaN \<and> \<bar>det_y d - cy\<bar> > 3 * fwhm \<and> \<bar>det_x d - cx\<bar> > 3 * fwhm)"

definition dust_xy_all :: "real \<Rightarrow> real \<Rightarrow> real \<Rightarrow> detection list \<Rightarrow> (real \<times> real) list" where
  "dust_xy_all cy cx fwhm table_det =
     map (\<lambda>d. (det_x d, det_y d))
       (filter (\<lambda>d. off_centre cy cx fwhm d \<and> np_gt (px_snr d) snr_thr_all) table_det)"

definition dust_xy_tmp :: "real \<Rightarrow> real \<Rightarrow> real \<Rightarrow> detection list \<Rightarrow> (real \<times> real) list" where
  "dust_xy_tmp cy cx fwhm table_det =
     map (\<lambda>d. (det_x d, det_y d))
       (filter (\<lambda>d. off_centre cy cx fwhm d
                  \<and> (det_y d > cy \<or> det_x d > cx) \<and> np_gt (px_snr d) snr_thr) table_det)"

text \<open>
  The 2-D Gaussian fit of a candidate in the reference frame is a collaborator: it returns
  the fitted widths, which are floats and may be zero or \<open>nan\<close>, or raises, and the loop
  at lines 2404-2415 does not catch that. The ratio \<open>fwhm_y / fwhm_x\<close> is a float64
  division, so a zero \<open>fwhm_x\<close> gives \<open>inf\<close>, \<open>-inf\<close> or \<open>nan\<close> and no error. The
  test of line 2414 is the disjunction of two comparisons of this ratio.
\<close>

record gauss_fit =
  fwhm_x :: npfloat
  fwhm_y :: npfloat

definition fwhm_ratio :: "gauss_fit \<Rightarrow> npfloat" where
  "fwhm_ratio g = np_div_f (fwhm_y g) (fwhm_x g)"

definition non_circular :: "gauss_fit \<Rightarrow> bool" where
  "non_circular g = (np_lt (fwhm_ratio g) 0.8 \<or> np_gt (fwhm_ratio g) 1.2)"

definition select_dust ::
  "((real \<times> real) \<Rightarrow> py_error + gauss_fit) \<Rightarrow> (real \<times> real) list
     \<Rightarrow> py_error + (real \<times> real) list" where
  "select_dust fit_2dgaussian cands =
     bind_err (map_err fit_2dgaussian cands) (\<lambda>fwhm_xy.
     let bad_dust = filter (\<lambda>dd. non_circular (fwhm_xy ! dd)) [0..<length cands]
     in Inr (map snd (filter (\<lambda>(i, xy). i \<notin> set bad_dust) (enumerate 0 cands))))"

definition dust_xy ::
  "((real \<times> real) \<Rightarrow> py_error + gauss_fit) \<Rightarrow> real \<Rightarrow> real \<Rightarrow> real \<Rightarrow> detection list
     \<Rightarrow> py_error + (real \<times> real) list" where
  "dust_xy fit_2dgaussian cy cx fwhm table_det =
     select_dust fit_2dgaussian (dust_xy_tmp cy cx fwhm table_det)"

section \<open>subtract_sky: the shift tables\<close>








section \<open>subtract_sky: nearest sky frame (median mode)\<close>

text \<open>
  Lines 2537-2563. Each science cube is its file name, its aligned frames
  (\<open>3_AGPM_aligned_imlib_*\<close>) and the \<open>MJD-OBS\<close> of its header; the sky cubes are already in
  chronological order. \<open>npix\<close> is the number of pixels of a frame (\<open>final_sz\<close> squared).
  The result lists the files written, in the order of the writes.
\<close>

record sci_cube =
  fits_name :: string
  aligned :: cube
  mjd_obs :: real

record sky_cube =
  sky_aligned :: cube
  sky_mjd_obs :: real

definition median_frame :: "nat \<Rightarrow> cube \<Rightarrow> npfloat list" where
  "median_frame npix c = map (\<lambda>i. np_median (map (\<lambda>fr. fr ! i) c)) [0..<npix]"

fun np_sub :: "real \<Rightarrow> npfloat \<Rightarrow> npfloat" where
  "np_sub p (Fin m) = Fin (p - m)"
| "np_sub p PInf = NInf"
| "np_sub p NInf = PInf"
| "np_sub p NaN = NaN"

definition subtract_frame :: "cube \<Rightarrow> npfloat list \<Rightarrow> out_frame list" where
  "subtract_frame c sky_fr = map (\<lambda>fr. map (\<lambda>(p, m). np_sub p m) (zip fr sky_fr)) c"

text \<open>
  \<open>master_sky_times\<close> is created by \<open>np.zeros(n_sky)\<close>, a float64 array. In the
  median mode it is written with \<open>write_fits\<close>, which stores float32, and read back
  before the search (lines 2549-2552), so the search runs on the rounded timestamps; in the
  PCA mode it is written but not read back. \<open>sc_time\<close> is the Python float of the
  header. Pixel values stay exact reals.
\<close>

definition float64_array :: "real list \<Rightarrow> py_array" where
  "float64_array xs = NdArray [length xs] (Float64 (map Fin xs))"

definition fits_float32_array :: "real list \<Rightarrow> py_array" where
  "fits_float32_array xs = NdArray [length xs] (Float32 (map to_float32 xs))"

text \<open>
  \<open>find_nearest(master_sky_times, sc_time)\<close> with the default arguments, which returns
  the index alone; the result is then used as an index, which only an integer can be.
\<close>

definition nearest_sky :: "py_array \<Rightarrow> real \<Rightarrow> py_error + int" where
  "nearest_sky master_sky_times sc_time =
     (case find_nearest master_sky_times (PyFloat (Fin sc_time)) ''index'' None of
        Inl e \<Rightarrow> Inl e
      | Inr (OutIndex idx) \<Rightarrow> Inr idx
      | Inr _ \<Rightarrow> Inl IndexError)"

definition sky_subtr_median ::
  "nat \<Rightarrow> sci_cube list \<Rightarrow> sky_cube list \<Rightarrow> py_error + (string \<times> out_frame list) list" where
  "sky_subtr_median npix sci_list sky_list =
     bind_err (raise_if (sci_list = []) IndexError) (\<lambda>_.
     let n_sci = length sci_list;
         sci_list_test = [sci_list ! 0, sci_list ! (n_sci div 2), sci_list ! (n_sci - 1)];
         master_skies2 = map (\<lambda>s. median_frame npix (sky_aligned s)) sky_list;
         master_sky_times = fits_float32_array (map sky_mjd_obs sky_list)
     in map_err (\<lambda>s.
          bind_err (nearest_sky master_sky_times (mjd_obs s)) (\<lambda>idx_sky.
          bind_err (np_get master_skies2 idx_sky) (\<lambda>sky_fr.
          Inr (''4_sky_subtr_imlib_'' @ fits_name s, subtract_frame (aligned s) sky_fr))))
        sci_list_test)"

section \<open>subtract_sky: the PCA rank\<close>

text \<open>
  \<open>np.sort\<close> and \<open>np.mean\<close> on a float array that may hold non-finite values: \<open>nan\<close> sorts
  last, and a mean over \<open>nan\<close>, or over both infinities, is \<open>nan\<close>.
\<close>

definition np_sort_f :: "npfloat list \<Rightarrow> npfloat list" where
  "np_sort_f xs =
     filter (\<lambda>x. x = NInf) xs @ map Fin (sort (map fin_val (filter is_fin xs)))
       @ filter (\<lambda>x. x = PInf) xs @ filter (\<lambda>x. x = NaN) xs"

definition np_mean_f :: "npfloat list \<Rightarrow> npfloat" where
  "np_mean_f xs =
     (if xs = [] \<or> NaN \<in> set xs \<or> (PInf \<in> set xs \<and> NInf \<in> set xs) then NaN
      else if PInf \<in> set xs then PInf
      else if NInf \<in> set xs then NInf
      else Fin (mean_val (map fin_val xs)))"

text \<open>Python's \<open>int(x)\<close> on a float that may be non-finite.\<close>

fun py_int_f :: "npfloat \<Rightarrow> py_error + int" where
  "py_int_f (Fin x) = Inr (py_int x)"
| "py_int_f NaN = Inl ValueError"
| "py_int_f PInf = Inl OverflowError"
| "py_int_f NInf = Inl OverflowError"

text \<open>
  Lines 2617-2659 and 2740-2748, the rank search and the subtraction loop of the PCA mode;
  the sky libraries built before them (lines 2577-2598) are inputs of the collaborators.
  The collaborators are parameters: \<open>aperture fits_idx
  idx_sky npc_tmp dd\<close> is \<open>get_circle(np.median(tmp_tmp, axis=0), 3*fwhm, mode='val', ...)\<close>
  around feature \<open>dd\<close> of \<open>dust_xy_all\<close>, where \<open>tmp_tmp\<close> is the residual of
  \<open>cube_subtract_sky_pca\<close> for science cube \<open>fits_idx\<close>, its nearest sky cube \<open>idx_sky\<close>
  and \<open>ncomp = npc_tmp\<close>; \<open>pca fits_idx idx_sky npc\<close> is that residual itself.
  \<open>hmean_std\<close> is one entry of the array of that name: the mean of the upper half of the
  sorted per-feature standard deviations.
\<close>

definition hmean_std :: "(nat \<Rightarrow> real list) \<Rightarrow> nat \<Rightarrow> npfloat" where
  "hmean_std circle ndust_all =
     (let std = map (\<lambda>dd. np_std (circle dd)) [0..<ndust_all];
          std_sort = np_sort_f std
      in np_mean_f (drop (ndust_all div 2) std_sort))"

definition npc_opt_cube ::
  "(nat \<Rightarrow> int \<Rightarrow> int \<Rightarrow> nat \<Rightarrow> real list) \<Rightarrow> nat \<Rightarrow> int list \<Rightarrow> real list \<Rightarrow> real list
     \<Rightarrow> nat \<Rightarrow> py_error + int" where
  "npc_opt_cube aperture ndust_all nnpc master_sky_times sci_times fits_idx =
     bind_err (nearest_sky (float64_array master_sky_times) (sci_times ! fits_idx)) (\<lambda>idx_sky.
     bind_err (np_argmin (map (\<lambda>npc_tmp. hmean_std (aperture fits_idx idx_sky npc_tmp) ndust_all)
                            nnpc)) (\<lambda>k.
     Inr (nnpc ! k)))"

definition default_nnpc :: "int list" where
  "default_nnpc = [1, 2, 3, 4, 5, 10, 20, 40, 60]"

definition candidate_npc :: "nat \<Rightarrow> int \<Rightarrow> int list option \<Rightarrow> int list" where
  "candidate_npc n_sky new_sky npc =
     filter (\<lambda>pc. pc < int n_sky * new_sky)
       (case npc of None \<Rightarrow> default_nnpc | Some l \<Rightarrow> l)"

definition choose_npc ::
  "(nat \<Rightarrow> int \<Rightarrow> int \<Rightarrow> nat \<Rightarrow> real list) \<Rightarrow> nat \<Rightarrow> nat \<Rightarrow> int \<Rightarrow> real list \<Rightarrow> real list
     \<Rightarrow> int list option \<Rightarrow> py_error + int" where
  "choose_npc aperture ndust_all n_sky new_sky master_sky_times sci_times npc =
     bind_err (raise_if (sci_times = []) IndexError) (\<lambda>_.
     let nnpc = candidate_npc n_sky new_sky npc;
         test_idx = [0, length sci_times div 2, length sci_times - 1]
     in
     bind_err (map_err (npc_opt_cube aperture ndust_all nnpc master_sky_times sci_times)
                 test_idx) (\<lambda>npc_opt.
     py_int_f (np_median (map real_of_int npc_opt))))"

definition sky_subtr_pca ::
  "(nat \<Rightarrow> int \<Rightarrow> int \<Rightarrow> 'r) \<Rightarrow> (nat \<Rightarrow> int \<Rightarrow> int \<Rightarrow> nat \<Rightarrow> real list) \<Rightarrow> nat \<Rightarrow> nat \<Rightarrow> int
     \<Rightarrow> real list \<Rightarrow> real list \<Rightarrow> int list option \<Rightarrow> py_error + int \<times> 'r list" where
  "sky_subtr_pca pca aperture ndust_all n_sky new_sky master_sky_times sci_times npc0 =
     bind_err (choose_npc aperture ndust_all n_sky new_sky master_sky_times sci_times npc0)
       (\<lambda>npc.
     bind_err (map_err (\<lambda>sc.
                 bind_err (nearest_sky (float64_array master_sky_times) (sci_times ! sc)) (\<lambda>idx_sky.
                 Inr (pca sc idx_sky npc)))
               [0..<length sci_times]) (\<lambda>outs.
     Inr (npc, outs)))"

text \<open>
  The statistic of the rank search in the words of the specification, for finite values:
  the mean of the upper half of the sorted per-feature standard deviations. It is compared
  with \<open>hmean_std\<close> below.
\<close>

definition spec_upper_half_mean :: "(nat \<Rightarrow> real list) \<Rightarrow> nat \<Rightarrow> real" where
  "spec_upper_half_mean circle ndust_all =
     mean_val (drop (ndust_all div 2) (sort (map (\<lambda>dd. std_val (circle dd)) [0..<ndust_all])))"

section \<open>dark_subtract: the offset objectives\<close>

text \<open>
  Lines 282-291: the diagnostic mask \<open>mask_std\<close> of the flat objective, row-major, for a
  frame of \<open>com_sz\<close> by \<open>com_sz\<close> pixels; \<open>cyi\<close> is \<open>int(cy)\<close> of the frame centre. A slice
  bound is normalised as Python does: a negative bound counts from the end and every bound
  is clipped to the axis. For \<open>com_sz > 733\<close> the columns are sliced with \<open>:-crop\<close>.
\<close>

definition slice_bound :: "int \<Rightarrow> int \<Rightarrow> nat" where
  "slice_bound n i = nat (if i < 0 then max 0 (n + i) else min i n)"

definition std_crop :: "int \<Rightarrow> int" where
  "std_crop com_sz = (if com_sz \<le> 733 then 0 else py_int ((real_of_int com_sz - 733) / 2))"

definition mask_std :: "int \<Rightarrow> int \<Rightarrow> bool list" where
  "mask_std com_sz cyi =
     concat (map (\<lambda>r. map (\<lambda>c.
         slice_bound com_sz (cyi - 23) \<le> r \<and> r < slice_bound com_sz (cyi + 23)
         \<and> c < (if com_sz \<le> 733 then nat com_sz else slice_bound com_sz (- std_crop com_sz)))
       [0..<nat com_sz]) [0..<nat com_sz])"

text \<open>\<open>frame[np.where(mask)]\<close>: the pixels at which the mask is set.\<close>

definition select_mask :: "bool list \<Rightarrow> 'a list \<Rightarrow> 'a list" where
  "select_mask msk fr = map snd (filter fst (zip msk fr))"

text \<open>
  \<open>np.std\<close> of floats that may be non-finite: any \<open>nan\<close> or infinity among them makes the
  result \<open>nan\<close>, as does an empty selection.
\<close>

definition np_std_f :: "npfloat list \<Rightarrow> npfloat" where
  "np_std_f xs =
     (if xs \<noteq> [] \<and> list_all is_fin xs then Fin (std_val (map fin_val xs)) else NaN)"

text \<open>
  Lines 699-723 and 853-876. \<open>pca_median guess\<close> is the collaborator's part,
  \<open>np.median(cube_subtract_sky_pca(tmp_tmp + guess, ...), axis=0)\<close>; \<open>diff\<close> holds the
  per-cube offsets. \<open>reshape((-1, ncol))\<close> and \<open>reshape(46, -1)\<close> raise \<open>ValueError\<close>
  when the size of the selection is not a multiple of the given dimension or that
  dimension is not positive; the reshaped array is only written to a file. Neither
  function tests the size of the selection.
\<close>

definition residual_frame :: "(real \<Rightarrow> frame) \<Rightarrow> real list \<Rightarrow> real \<Rightarrow> npfloat list" where
  "residual_frame pca_median diff guess =
     map (\<lambda>p. case np_median diff of Fin m \<Rightarrow> Fin (p - (m + guess)) | _ \<Rightarrow> NaN)
       (pca_median guess)"

definition get_test_diff_flat ::
  "(real \<Rightarrow> frame) \<Rightarrow> real list \<Rightarrow> bool list \<Rightarrow> int \<Rightarrow> real \<Rightarrow> py_error + npfloat" where
  "get_test_diff_flat pca_median diff msk_std com_sz guess =
     (let subframe = select_mask msk_std (residual_frame pca_median diff guess);
          ncol = com_sz - std_crop com_sz
      in bind_err (raise_if (ncol \<le> 0 \<or> int (length subframe) mod ncol \<noteq> 0) ValueError) (\<lambda>_.
         Inr (np_std_f subframe)))"

definition get_test_diff_sci ::
  "(real \<Rightarrow> frame) \<Rightarrow> real list \<Rightarrow> bool list \<Rightarrow> real \<Rightarrow> py_error + npfloat" where
  "get_test_diff_sci pca_median diff msk_sci guess =
     (let subframe = select_mask msk_sci (residual_frame pca_median diff guess);
          stddev = np_std_f subframe
      in bind_err (raise_if (length subframe mod 46 \<noteq> 0) ValueError) (\<lambda>_.
         Inr stddev))"

section \<open>Concrete datasets\<close>

text \<open>
  A full reduction without plots: one science cube of three one-pixel frames with fluxes
  1, 3, 5 (and the trailing median frame), and two sky cubes, the second of which holds
  two integration frames while the nominal number of sky integrations is 3.
\<close>

definition short_sky_run :: ffr_input where
  "short_sky_run =
     \<lparr> sci = [[[1], [3], [5], [3]]], sky = [[[2], [2], [2], [2]], [[2], [2], [2]]],
       unsat = [], ndit_sci = [3], ndit_sky = [3], ndit_unsat = [3],
       fast_reduction = False, plot = False, annulus = [True] \<rparr>"

text \<open>
  A full reduction of one science cube of three one-pixel frames with fluxes 1, 3, 5 (and
  the trailing median frame) and one sky cube.
\<close>

definition drift_run :: ffr_input where
  "drift_run =
     \<lparr> sci = [[[1], [3], [5], [3]]], sky = [[[2], [2], [2], [2]]], unsat = [],
       ndit_sci = [3], ndit_sky = [3], ndit_unsat = [3],
       fast_reduction = False, plot = False, annulus = [True] \<rparr>"

text \<open>
  A full reduction, with plots, of three science cubes of ten one-pixel frames (and the
  trailing median frame). The medians across the cubes of the fluxes of the frame-indices
  0, 1, 2, ... are 10, 15, 15, 10, ..., 10, while the first cube alone has the fluxes
  17, 19, 10, ..., 10.
\<close>

definition settling_cubes :: "cube list" where
  "settling_cubes =
     [[[17], [19], [10], [10], [10], [10], [10], [10], [10], [10], [10]],
      [[10], [15], [15], [10], [10], [10], [10], [10], [10], [10], [10]],
      [[7], [11], [15], [10], [10], [10], [10], [10], [10], [10], [10]]]"

definition settling_run :: ffr_input where
  "settling_run =
     \<lparr> sci = settling_cubes,
       sky = [[[2], [2], [2], [2], [2], [2], [2], [2], [2], [2], [2]]],
       unsat = [], ndit_sci = [10], ndit_sky = [10], ndit_unsat = [10],
       fast_reduction = False, plot = True, annulus = [True] \<rparr>"

text \<open>
  A science cube of fifty one-pixel frames (and the trailing median frame) whose frames
  1 to 10 are brighter than all the others.
\<close>

definition bright_start_fluxes :: "real list" where
  "bright_start_fluxes =
     [0, 5, 5, 5, 5, 5, 5, 5, 5, 5, 5, 0, 0, 0, 0, 0, 0, 0, 0, 0, 0, 0, 0, 0, 0,
      0, 0, 0, 0, 0, 0, 0, 0, 0, 0, 0, 0, 0, 0, 0, 0, 0, 0, 0, 0, 0, 0, 0, 0, 0]"

definition bright_start_cube :: cube where
  "bright_start_cube = map (\<lambda>x. [x]) bright_start_fluxes @ [[0]]"

text \<open>
  Three detections around the centre \<open>(50, 50)\<close> of a frame, with a stellar FWHM of 4: a
  round speck, an elongated one, and a round one in the lower-left quadrant.
\<close>

definition speck_table :: "detection list" where
  "speck_table =
     [\<lparr> det_y = 80, det_x = 70, px_snr = Fin 50 \<rparr>,
      \<lparr> det_y = 20, det_x = 90, px_snr = Fin 40 \<rparr>,
      \<lparr> det_y = 10, det_x = 15, px_snr = Fin 60 \<rparr>]"

definition speck_fit :: "(real \<times> real) \<Rightarrow> py_error + gauss_fit" where
  "speck_fit xy =
     (if xy = (90, 20) then Inr \<lparr> fwhm_x = Fin 4, fwhm_y = Fin 6 \<rparr>
      else Inr \<lparr> fwhm_x = Fin 4, fwhm_y = Fin 4 \<rparr>)"

text \<open>A fit that returns zero widths for the second detection.\<close>

definition zero_width_fit :: "(real \<times> real) \<Rightarrow> py_error + gauss_fit" where
  "zero_width_fit xy =
     (if xy = (90, 20) then Inr \<lparr> fwhm_x = Fin 0, fwhm_y = Fin 0 \<rparr>
      else Inr \<lparr> fwhm_x = Fin 4, fwhm_y = Fin 4 \<rparr>)"




text \<open>
  Four science cubes \<open>a\<close>, \<open>b\<close>, \<open>c\<close>, \<open>d\<close> of one one-pixel frame each, observed at
  times 1, 2, 3, 4, and two sky cubes observed at times 0 and 5.
\<close>

definition four_sci :: "sci_cube list" where
  "four_sci =
     [\<lparr> fits_name = ''a'', aligned = [[10]], mjd_obs = 1 \<rparr>,
      \<lparr> fits_name = ''b'', aligned = [[10]], mjd_obs = 2 \<rparr>,
      \<lparr> fits_name = ''c'', aligned = [[10]], mjd_obs = 3 \<rparr>,
      \<lparr> fits_name = ''d'', aligned = [[10]], mjd_obs = 4 \<rparr>]"

definition two_sky :: "sky_cube list" where
  "two_sky =
     [\<lparr> sky_aligned = [[1]], sky_mjd_obs = 0 \<rparr>,
      \<lparr> sky_aligned = [[2]], sky_mjd_obs = 5 \<rparr>]"

text \<open>
  A rank search on five science cubes observed at the times 1 to 5, with two sky cubes
  observed at the times 0 and 6 and two all-high-SNR dust features. For the rank
  \<open>rank_best\<close> of a cube the residual has the values 0 and 4 around both features
  (standard deviations 2 and 2); for every other rank it is flat around the first feature
  and has the values 0 and 6 around the second (standard deviations 0 and 3).
\<close>

definition rank_best :: "nat \<Rightarrow> int" where
  "rank_best fits_idx = (if fits_idx = 0 then 1 else if fits_idx = 2 then 3 else 2)"

definition rank_apertures :: "nat \<Rightarrow> int \<Rightarrow> int \<Rightarrow> nat \<Rightarrow> real list" where
  "rank_apertures fits_idx idx_sky npc_tmp dd =
     (if npc_tmp = rank_best fits_idx then [0, 4] else if dd = 0 then [1, 1] else [0, 6])"

section \<open>Sequencing lemmas\<close>

lemma bind_err_Inr_iff: "bind_err m f = Inr y \<longleftrightarrow> (\<exists>x. m = Inr x \<and> f x = Inr y)"
  by (cases m) (simp_all add: bind_err_def)

lemma raise_if_Inr_iff: "raise_if b e = Inr u \<longleftrightarrow> \<not> b"
  by (simp add: raise_if_def)

lemma map_err_Inr:
  "map_err f xs = Inr ys \<Longrightarrow> length ys = length xs \<and> (\<forall>i < length xs. f (xs ! i) = Inr (ys ! i))"
proof (induction xs arbitrary: ys)
  case Nil
  then show ?case by simp
next
  case (Cons x xs)
  from Cons.prems obtain y ys' where y: "f x = Inr y" and r: "map_err f xs = Inr ys'"
    and ys: "ys = y # ys'"
    by (auto split: sum.splits)
  from Cons.IH [OF r] have l: "length ys' = length xs"
    and a: "\<forall>i < length xs. f (xs ! i) = Inr (ys' ! i)" by simp_all
  show ?case
  proof (intro conjI allI impI)
    show "length ys = length (x # xs)" using ys l by simp
  next
    fix i assume "i < length (x # xs)"
    then show "f ((x # xs) ! i) = Inr (ys ! i)"
      using y a ys by (cases i) simp_all
  qed
qed

lemma map_err_total:
  "\<forall>x \<in> set xs. \<exists>y. f x = Inr y \<Longrightarrow> \<exists>ys. map_err f xs = Inr ys"
  by (induction xs) auto

section \<open>Properties of the float32 rounding\<close>

text \<open>
  \<open>binade\<close> finds the power of two below a positive number, and the rounded value is a
  multiple of the unit in the last place that differs from the argument by at most half of
  that unit.
\<close>

lemma float32_examples:
  "to_float32 (1 / 3) = Fin (11184811 / 2 ^ 25)"
  "to_float32 16777217 = Fin 16777216"
  "to_float32 16777219 = Fin 16777220"
  "to_float32 58000.001 = Fin 58000"
  "to_float32 (- 58000.003) = Fin (- 58000.00390625)"
  "to_float32 (2 ^ 128 - 2 ^ 103) = PInf"
  "to_float32 (1 / 2 ^ 150) = Fin 0"
  by (simp_all add: to_float32_def binade_def pow2_def round_half_even_def bitlen_def
      compute_floorlog Let_def)

lemma floorlog_real_bounds:
  assumes "0 < n"
  shows "(2::real) ^ (floorlog 2 n - 1) \<le> real n" and "real n + 1 \<le> 2 ^ floorlog 2 n"
    and "0 < floorlog 2 n"
proof -
  from floorlog_bounds [of n 2] assms
  have b: "2 ^ (floorlog 2 n - 1) \<le> n" "n < 2 ^ floorlog 2 n" by simp_all
  have "real (2 ^ (floorlog 2 n - 1)) \<le> real n" using b(1) by (rule of_nat_mono)
  then show "(2::real) ^ (floorlog 2 n - 1) \<le> real n" by simp
  have "n + 1 \<le> 2 ^ floorlog 2 n" using b(2) by simp
  then have "real (n + 1) \<le> real (2 ^ floorlog 2 n)" by (rule of_nat_mono)
  then show "real n + 1 \<le> 2 ^ floorlog 2 n" by simp
  show "0 < floorlog 2 n" using assms by (simp add: floorlog_def)
qed

lemma binade_ge1:
  assumes "1 \<le> x"
  shows "pow2 (binade x) \<le> x \<and> x < pow2 (binade x + 1)"
proof -
  define n where "n = nat \<lfloor>x\<rfloor>"
  define L where "L = floorlog 2 n"
  have f: "1 \<le> \<lfloor>x\<rfloor>" using assms by linarith
  have n: "0 < n" using f by (simp add: n_def)
  note b = floorlog_real_bounds [OF n, folded L_def]
  have e: "binade x = int L - 1"
    using assms by (simp add: binade_def bitlen_def L_def n_def)
  have rn: "real n = of_int \<lfloor>x\<rfloor>" using f by (simp add: n_def)
  have "real n \<le> x" "x < real n + 1" unfolding rn by linarith+
  then have lo: "(2::real) ^ (L - 1) \<le> x" and hi: "x < (2::real) ^ L"
    using b(1,2) by linarith+
  have p1: "pow2 (int L - 1) = 2 ^ (L - 1)"
    using b(3) by (simp add: pow2_def nat_diff_distrib)
  have p2: "pow2 (int L - 1 + 1) = 2 ^ L" by (simp add: pow2_def)
  show ?thesis unfolding e p1 p2 using lo hi by simp
qed

lemma binade_lt1:
  assumes "0 < x" and "x < 1"
  shows "pow2 (binade x) \<le> x \<and> x < pow2 (binade x + 1)"
proof -
  define c where "c = \<lceil>1 / x\<rceil>"
  define n where "n = nat (c - 1)"
  define L where "L = floorlog 2 n"
  have inv: "1 < 1 / x" using assms by simp
  have c2: "2 \<le> c" unfolding c_def using inv by linarith
  have n: "0 < n" using c2 by (simp add: n_def)
  note b = floorlog_real_bounds [OF n, folded L_def]
  have e: "binade x = - int L"
    using assms by (simp add: binade_def bitlen_def L_def n_def c_def)
  have "int n = c - 1" using c2 by (simp add: n_def)
  then have rn: "real n = of_int c - 1" by (metis of_int_diff of_int_1 of_int_of_nat_eq)
  have "1 / x \<le> of_int c" "of_int c < 1 / x + 1" unfolding c_def by linarith+
  then have up: "1 / x \<le> real n + 1" and dn: "real n < 1 / x" unfolding rn by linarith+
  have a1: "(2::real) ^ (L - 1) < 1 / x" using b(1) dn by linarith
  have a2: "1 / x \<le> (2::real) ^ L" using b(2) up by linarith
  have lo: "1 / 2 ^ L \<le> x"
  proof -
    have "1 \<le> x * 2 ^ L" using a2 assms(1) by (simp add: field_simps)
    then show ?thesis by (simp add: field_simps)
  qed
  have hi: "x < 1 / 2 ^ (L - 1)"
  proof -
    have "x * 2 ^ (L - 1) < 1" using a1 assms(1) by (simp add: field_simps)
    then show ?thesis by (simp add: field_simps)
  qed
  have p1: "pow2 (- int L) = 1 / 2 ^ L" using b(3) by (simp add: pow2_def)
  have p2: "pow2 (- int L + 1) = 1 / 2 ^ (L - 1)"
  proof (cases "L = 1")
    case True
    then show ?thesis by (simp add: pow2_def)
  next
    case False
    then have "1 < L" using b(3) by linarith
    then have "nat (int L - 1) = L - 1" "\<not> 0 \<le> - int L + 1" by linarith+
    then show ?thesis by (simp add: pow2_def)
  qed
  show ?thesis unfolding e p1 p2 using lo hi by simp
qed

lemma binade_bounds: "0 < x \<Longrightarrow> pow2 (binade x) \<le> x \<and> x < pow2 (binade x + 1)"
  using binade_ge1 [of x] binade_lt1 [of x] by (cases "1 \<le> x") auto

lemma pow2_pos: "0 < pow2 e"
  by (simp add: pow2_def)

lemma round_half_even_near: "\<bar>of_int (round_half_even q) - q\<bar> \<le> 1 / 2"
  unfolding round_half_even_def by (auto; linarith)

lemma to_float32_near:
  assumes "to_float32 x = Fin y"
  shows "\<exists>m :: int. y = of_int m * pow2 (max (binade \<bar>x\<bar>) (- 126) - 23)
           \<and> \<bar>y - x\<bar> \<le> pow2 (max (binade \<bar>x\<bar>) (- 126) - 23) / 2"
proof (cases "x = 0")
  case True
  then have "y = 0" using assms by (simp add: to_float32_def)
  then show ?thesis using True pow2_pos [of "max (binade \<bar>x\<bar>) (- 126) - 23"]
    by (intro exI [of _ 0]) (simp add: less_imp_le)
next
  case False
  define u where "u = pow2 (max (binade \<bar>x\<bar>) (- 126) - 23)"
  define m where "m = round_half_even (\<bar>x\<bar> / u)"
  have u: "0 < u" unfolding u_def by (rule pow2_pos)
  have y: "y = (if 0 < x then of_int m * u else - (of_int m * u))"
    using assms False unfolding to_float32_def Let_def u_def [symmetric] m_def [symmetric]
    by (simp split: if_splits)
  have "\<bar>of_int m - \<bar>x\<bar> / u\<bar> \<le> 1 / 2" unfolding m_def by (rule round_half_even_near)
  then have "\<bar>of_int m - \<bar>x\<bar> / u\<bar> * u \<le> 1 / 2 * u" using u by (simp add: mult_right_mono)
  moreover have "\<bar>of_int m - \<bar>x\<bar> / u\<bar> * u = \<bar>(of_int m - \<bar>x\<bar> / u) * u\<bar>"
    using u by (simp add: abs_mult)
  moreover have "(of_int m - \<bar>x\<bar> / u) * u = of_int m * u - \<bar>x\<bar>"
    using u by (simp add: left_diff_distrib)
  ultimately have near: "\<bar>of_int m * u - \<bar>x\<bar>\<bar> \<le> u / 2" by simp
  show ?thesis
  proof (cases "0 < x")
    case True
    then show ?thesis using y near unfolding u_def [symmetric]
      by (intro exI [of _ m]) simp
  next
    case neg: False
    then have xn: "x < 0" using False by simp
    have "\<bar>- (of_int m * u) - x\<bar> = \<bar>of_int m * u - \<bar>x\<bar>\<bar>" using xn by linarith
    then show ?thesis using y near xn unfolding u_def [symmetric]
      by (intro exI [of _ "- m"]) simp
  qed
qed

section \<open>Properties of find_nearest\<close>

lemma np_le_refl: "a \<noteq> NaN \<Longrightarrow> np_le a a"
  by (cases a) auto

lemma np_le_trans: "np_le a b \<Longrightarrow> np_le b c \<Longrightarrow> np_le a c"
  by (cases a; cases b; cases c) auto

lemma np_le_total: "a \<noteq> NaN \<Longrightarrow> b \<noteq> NaN \<Longrightarrow> np_le a b \<or> np_le b a"
  by (cases a; cases b) auto

lemma np_le_nan: "\<not> np_le a NaN" "\<not> np_le NaN a"
  by (cases a; simp)+

lemma argmin_scan_first_minimum:
  assumes "min_ind < i" and "length ys = i" and "ys ! min_ind = mp"
    and "(mp = NaN \<and> (\<forall>j < min_ind. ys ! j \<noteq> NaN))
         \<or> ((\<forall>j < i. ys ! j \<noteq> NaN \<and> np_le mp (ys ! j))
            \<and> (\<forall>j < min_ind. \<not> np_le (ys ! j) mp))"
  shows "first_minimum (ys @ xs) (argmin_scan mp min_ind i xs)"
  using assms
proof (induction xs arbitrary: mp min_ind i ys)
  case Nil
  then show ?case by (auto simp: first_minimum_def)
next
  case (Cons x xs)
  show ?case
  proof (cases "mp = NaN")
    case True
    have first: "\<forall>j < min_ind. ys ! j \<noteq> NaN"
      using Cons.prems(1,3,4) True by auto
    have "first_minimum (ys @ x # xs) min_ind"
      unfolding first_minimum_def
      using Cons.prems(1,2,3) True first by (auto simp: nth_append)
    then show ?thesis using True by simp
  next
    case False
    then have all: "\<forall>j < i. ys ! j \<noteq> NaN \<and> np_le mp (ys ! j)"
      and before: "\<forall>j < min_ind. \<not> np_le (ys ! j) mp"
      using Cons.prems(4) by auto
    show ?thesis
    proof (cases "np_le mp x")
      case True
      have xn: "x \<noteq> NaN" using True np_le_nan(1) by auto
      have step: "argmin_scan mp min_ind i (x # xs) = argmin_scan mp min_ind (Suc i) xs"
        using True False by simp
      have "first_minimum ((ys @ [x]) @ xs) (argmin_scan mp min_ind (Suc i) xs)"
      proof (rule Cons.IH)
        show "min_ind < Suc i" using Cons.prems(1) by simp
        show "length (ys @ [x]) = Suc i" using Cons.prems(2) by simp
        show "(ys @ [x]) ! min_ind = mp" using Cons.prems(1,2,3) by (simp add: nth_append)
        have "\<forall>j < Suc i. (ys @ [x]) ! j \<noteq> NaN \<and> np_le mp ((ys @ [x]) ! j)"
          using all True xn Cons.prems(2) by (auto simp: nth_append less_Suc_eq)
        moreover have "\<forall>j < min_ind. \<not> np_le ((ys @ [x]) ! j) mp"
          using before Cons.prems(1,2) by (auto simp: nth_append)
        ultimately show "(mp = NaN \<and> (\<forall>j < min_ind. (ys @ [x]) ! j \<noteq> NaN))
            \<or> ((\<forall>j < Suc i. (ys @ [x]) ! j \<noteq> NaN \<and> np_le mp ((ys @ [x]) ! j))
               \<and> (\<forall>j < min_ind. \<not> np_le ((ys @ [x]) ! j) mp))"
          by blast
      qed
      then show ?thesis using step by simp
    next
      case nle: False
      have step: "argmin_scan mp min_ind i (x # xs) = argmin_scan x i (Suc i) xs"
        using nle False by simp
      have "first_minimum ((ys @ [x]) @ xs) (argmin_scan x i (Suc i) xs)"
      proof (rule Cons.IH)
        show "i < Suc i" by simp
        show "length (ys @ [x]) = Suc i" using Cons.prems(2) by simp
        show "(ys @ [x]) ! i = x" using Cons.prems(2) by (simp add: nth_append)
        show "(x = NaN \<and> (\<forall>j < i. (ys @ [x]) ! j \<noteq> NaN))
            \<or> ((\<forall>j < Suc i. (ys @ [x]) ! j \<noteq> NaN \<and> np_le x ((ys @ [x]) ! j))
               \<and> (\<forall>j < i. \<not> np_le ((ys @ [x]) ! j) x))"
        proof (cases "x = NaN")
          case True
          then show ?thesis using all Cons.prems(2) by (auto simp: nth_append)
        next
          case xn: False
          have below: "np_le x mp" using np_le_total [OF False xn] nle by blast
          have a: "\<forall>j < Suc i. (ys @ [x]) ! j \<noteq> NaN \<and> np_le x ((ys @ [x]) ! j)"
          proof (intro allI impI)
            fix j assume j: "j < Suc i"
            show "(ys @ [x]) ! j \<noteq> NaN \<and> np_le x ((ys @ [x]) ! j)"
            proof (cases "j < i")
              case True
              then have "ys ! j \<noteq> NaN" "np_le mp (ys ! j)" using all by auto
              then show ?thesis
                using True Cons.prems(2) np_le_trans [OF below] by (simp add: nth_append)
            next
              case False
              then have "j = i" using j by simp
              then show ?thesis
                using Cons.prems(2) xn np_le_refl [OF xn] by (simp add: nth_append)
            qed
          qed
          have b: "\<forall>j < i. \<not> np_le ((ys @ [x]) ! j) x"
          proof (intro allI impI)
            fix j assume j: "j < i"
            then have "np_le mp (ys ! j)" using all by auto
            then have "\<not> np_le (ys ! j) x" using np_le_trans nle by blast
            then show "\<not> np_le ((ys @ [x]) ! j) x"
              using j Cons.prems(2) by (simp add: nth_append)
          qed
          show ?thesis using a b by blast
        qed
      qed
      then show ?thesis using step by simp
    qed
  qed
qed

lemma np_argmin_first_minimum:
  "np_argmin xs = Inr k \<Longrightarrow> first_minimum xs k"
proof -
  assume r: "np_argmin xs = Inr k"
  then obtain x rest where xs: "xs = x # rest" by (cases xs) auto
  have "first_minimum ([x] @ rest) (argmin_scan x 0 1 rest)"
  proof (rule argmin_scan_first_minimum)
    show "(x = NaN \<and> (\<forall>j < 0. [x] ! j \<noteq> NaN))
        \<or> ((\<forall>j < 1. [x] ! j \<noteq> NaN \<and> np_le x ([x] ! j)) \<and> (\<forall>j < 0. \<not> np_le ([x] ! j) x))"
      using np_le_refl [of x] by (cases "x = NaN") auto
  qed simp_all
  then show ?thesis using r xs by simp
qed





lemma find_nearest_arr_unadjusted:
  "find_nearest_arr sh d v out c =
     (case array_minus_value d v of
        Inl e \<Rightarrow> Inl e
      | Inr ds \<Rightarrow>
          (case np_argmin (map np_abs_f ds) of
             Inl e \<Rightarrow> Inl e
           | Inr k \<Rightarrow>
               if out = ''index'' then Inr (OutIndex (int k))
               else (case np_item sh d (int k) of
                       Inl e \<Rightarrow> Inl e
                     | Inr a \<Rightarrow> if out = ''value'' then Inr (OutValue a)
                                else Inr (OutBoth a (int k)))))"
  by (simp add: find_nearest_arr_def builtin_type_eq_def py_and_def split: sum.splits)


text \<open>
  The search on arrays that the statement below leaves out: the first \<open>nan\<close> entry wins
  the \<open>argmin\<close>, and on an array of two dimensions the flat index of the minimum is used
  as a row index.
\<close>

lemma find_nearest_nan_entry:
  "find_nearest (NdArray [3] (Float64 [Fin 0, NaN, Fin 7])) (PyFloat (Fin 7)) ''index'' None
     = Inr (OutIndex 1)"
  by (simp add: find_nearest_arr_unadjusted)

lemma find_nearest_flat_index:
  "find_nearest (NdArray [2, 2] (Float64 [Fin 0, Fin 100, Fin 7, Fin 8])) (PyFloat (Fin 7))
     ''index'' None = Inr (OutIndex 2)"
  "find_nearest (NdArray [2, 2] (Float64 [Fin 0, Fin 100, Fin 7, Fin 8])) (PyFloat (Fin 7))
     ''value'' None = Inl IndexError"
  "find_nearest (NdArray [2, 2] (Float64 [Fin 0, Fin 7, Fin 100, Fin 8])) (PyFloat (Fin 7))
     ''value'' None = Inr (OutValue (NdArray [2] (Float64 [Fin 100, Fin 8])))"
  by (simp_all add: find_nearest_arr_unadjusted)




section \<open>Properties of get_final_sz\<close>

lemma py_int_le:
  assumes "0 \<le> x"
  shows "real_of_int (py_int x) \<le> x" and "\<And>k::int. real_of_int k \<le> x \<Longrightarrow> k \<le> py_int x"
  using assms by (simp_all add: py_int_def le_floor_iff)

lemma min_chain_le:
  fixes a b c d e :: int
  shows "min a (min b (min c (min d e))) \<le> a" "min a (min b (min c (min d e))) \<le> b"
    "min a (min b (min c (min d e))) \<le> c" "min a (min b (min c (min d e))) \<le> d"
    "min a (min b (min c (min d e))) \<le> e"
  by simp_all

lemma min_chain_greatest:
  fixes a b c d e :: int
  shows "k \<le> a \<Longrightarrow> k \<le> b \<Longrightarrow> k \<le> c \<Longrightarrow> k \<le> d \<Longrightarrow> k \<le> e
    \<Longrightarrow> k \<le> min a (min b (min c (min d e)))"
  by simp

text \<open>
  C7. With a non-negative shadow radius, \<open>get_final_sz\<close> returns an odd integer that is at
  most twice the shadow radius, at most the cap when the caller gives one, and at most
  \<open>2 * d - 1\<close> for each of the four distances \<open>d\<close> from the reference position to a frame
  edge; every odd integer within these bounds is at most the returned size.
\<close>

theorem get_final_sz_largest_odd:
  assumes "0 \<le> shadow_r"
  shows "odd (get_final_sz (py, px) com_sz shadow_r cap)
       \<and> real_of_int (get_final_sz (py, px) com_sz shadow_r cap) \<le> 2 * shadow_r
       \<and> (\<forall>c. cap = Some c \<longrightarrow> get_final_sz (py, px) com_sz shadow_r cap \<le> c)
       \<and> get_final_sz (py, px) com_sz shadow_r cap \<le> 2 * py - 1
       \<and> get_final_sz (py, px) com_sz shadow_r cap \<le> 2 * px - 1
       \<and> get_final_sz (py, px) com_sz shadow_r cap \<le> 2 * (com_sz - py) - 1
       \<and> get_final_sz (py, px) com_sz shadow_r cap \<le> 2 * (com_sz - px) - 1
       \<and> (\<forall>k. odd k \<and> real_of_int k \<le> 2 * shadow_r \<and> (\<forall>c. cap = Some c \<longrightarrow> k \<le> c)
              \<and> k \<le> 2 * py - 1 \<and> k \<le> 2 * px - 1
              \<and> k \<le> 2 * (com_sz - py) - 1 \<and> k \<le> 2 * (com_sz - px) - 1
            \<longrightarrow> k \<le> get_final_sz (py, px) com_sz shadow_r cap)"
proof -
  define s where "s = py_int (2 * shadow_r)"
  have s1: "real_of_int s \<le> 2 * shadow_r"
    unfolding s_def using assms py_int_le(1) [of "2 * shadow_r"] by simp
  have s2: "\<And>k::int. real_of_int k \<le> 2 * shadow_r \<Longrightarrow> k \<le> s"
    unfolding s_def using assms py_int_le(2) [of "2 * shadow_r"] by simp
  have s3: "\<And>k::int. k \<le> s \<Longrightarrow> real_of_int k \<le> 2 * shadow_r"
  proof -
    fix k :: int assume "k \<le> s"
    then have "real_of_int k \<le> real_of_int s" by simp
    then show "real_of_int k \<le> 2 * shadow_r" using s1 by linarith
  qed
  show ?thesis
  proof (cases cap)
    case None
    define m where "m = min (2 * py - 1) (min (2 * px - 1)
        (min (2 * (com_sz - py) - 1) (min (2 * (com_sz - px) - 1) s)))"
    have g: "get_final_sz (py, px) com_sz shadow_r cap = (if m mod 2 = 0 then m - 1 else m)"
      using None unfolding get_final_sz_def m_def s_def
      by (simp only: Let_def option.case fst_conv snd_conv)
    have ms: "m \<le> s" and m1: "m \<le> 2 * py - 1" and m2: "m \<le> 2 * px - 1"
      and m3: "m \<le> 2 * (com_sz - py) - 1" and m4: "m \<le> 2 * (com_sz - px) - 1"
      unfolding m_def by (rule min_chain_le)+
    have big: "\<And>k. k \<le> s \<Longrightarrow> k \<le> 2 * py - 1 \<Longrightarrow> k \<le> 2 * px - 1
        \<Longrightarrow> k \<le> 2 * (com_sz - py) - 1 \<Longrightarrow> k \<le> 2 * (com_sz - px) - 1 \<Longrightarrow> k \<le> m"
      unfolding m_def by (rule min_chain_greatest)
    define r where "r = (if m mod 2 = 0 then m - 1 else m)"
    have odd_r: "odd r" unfolding r_def by presburger
    have le_m: "r \<le> m" unfolding r_def by simp
    have max_r: "\<And>k. odd k \<Longrightarrow> k \<le> m \<Longrightarrow> k \<le> r"
      unfolding r_def by presburger
    have gr: "get_final_sz (py, px) com_sz shadow_r cap = r" using g r_def by simp
    have "r \<le> s" using le_m ms by linarith
    then have "real_of_int r \<le> 2 * shadow_r" by (rule s3)
    moreover have "\<forall>c. cap = Some c \<longrightarrow> r \<le> c" using None by simp
    moreover have "r \<le> 2 * py - 1" "r \<le> 2 * px - 1"
      "r \<le> 2 * (com_sz - py) - 1" "r \<le> 2 * (com_sz - px) - 1"
      using le_m m1 m2 m3 m4 by simp_all
    moreover have "\<forall>k. odd k \<and> real_of_int k \<le> 2 * shadow_r \<and> (\<forall>c. cap = Some c \<longrightarrow> k \<le> c)
              \<and> k \<le> 2 * py - 1 \<and> k \<le> 2 * px - 1
              \<and> k \<le> 2 * (com_sz - py) - 1 \<and> k \<le> 2 * (com_sz - px) - 1
            \<longrightarrow> k \<le> r"
    proof (intro allI impI)
      fix k :: int
      assume k: "odd k \<and> real_of_int k \<le> 2 * shadow_r \<and> (\<forall>c. cap = Some c \<longrightarrow> k \<le> c)
              \<and> k \<le> 2 * py - 1 \<and> k \<le> 2 * px - 1
              \<and> k \<le> 2 * (com_sz - py) - 1 \<and> k \<le> 2 * (com_sz - px) - 1"
      then have "k \<le> s" using s2 by blast
      then have "k \<le> m" using k by (intro big) simp_all
      then show "k \<le> r" using k max_r by blast
    qed
    ultimately show ?thesis unfolding gr using odd_r by simp
  next
    case (Some c0)
    define m where "m = min (2 * py - 1) (min (2 * px - 1)
        (min (2 * (com_sz - py) - 1) (min (2 * (com_sz - px) - 1) (min s c0))))"
    have g: "get_final_sz (py, px) com_sz shadow_r cap = (if m mod 2 = 0 then m - 1 else m)"
      using Some unfolding get_final_sz_def m_def s_def
      by (simp only: Let_def option.case fst_conv snd_conv)
    have m1: "m \<le> 2 * py - 1" and m2: "m \<le> 2 * px - 1"
      and m3: "m \<le> 2 * (com_sz - py) - 1" and m4: "m \<le> 2 * (com_sz - px) - 1"
      and msc: "m \<le> min s c0"
      unfolding m_def by (rule min_chain_le)+
    have ms: "m \<le> s" and mc: "m \<le> c0" using msc by simp_all
    have big: "\<And>k. k \<le> s \<Longrightarrow> k \<le> c0 \<Longrightarrow> k \<le> 2 * py - 1 \<Longrightarrow> k \<le> 2 * px - 1
        \<Longrightarrow> k \<le> 2 * (com_sz - py) - 1 \<Longrightarrow> k \<le> 2 * (com_sz - px) - 1 \<Longrightarrow> k \<le> m"
      unfolding m_def by (rule min_chain_greatest) simp_all
    define r where "r = (if m mod 2 = 0 then m - 1 else m)"
    have odd_r: "odd r" unfolding r_def by presburger
    have le_m: "r \<le> m" unfolding r_def by simp
    have max_r: "\<And>k. odd k \<Longrightarrow> k \<le> m \<Longrightarrow> k \<le> r"
      unfolding r_def by presburger
    have gr: "get_final_sz (py, px) com_sz shadow_r cap = r" using g r_def by simp
    have "r \<le> s" using le_m ms by linarith
    then have "real_of_int r \<le> 2 * shadow_r" by (rule s3)
    moreover have "\<forall>c. cap = Some c \<longrightarrow> r \<le> c" using Some le_m mc by simp
    moreover have "r \<le> 2 * py - 1" "r \<le> 2 * px - 1"
      "r \<le> 2 * (com_sz - py) - 1" "r \<le> 2 * (com_sz - px) - 1"
      using le_m m1 m2 m3 m4 by simp_all
    moreover have "\<forall>k. odd k \<and> real_of_int k \<le> 2 * shadow_r \<and> (\<forall>c. cap = Some c \<longrightarrow> k \<le> c)
              \<and> k \<le> 2 * py - 1 \<and> k \<le> 2 * px - 1
              \<and> k \<le> 2 * (com_sz - py) - 1 \<and> k \<le> 2 * (com_sz - px) - 1
            \<longrightarrow> k \<le> r"
    proof (intro allI impI)
      fix k :: int
      assume k: "odd k \<and> real_of_int k \<le> 2 * shadow_r \<and> (\<forall>c. cap = Some c \<longrightarrow> k \<le> c)
              \<and> k \<le> 2 * py - 1 \<and> k \<le> 2 * px - 1
              \<and> k \<le> 2 * (com_sz - py) - 1 \<and> k \<le> 2 * (com_sz - px) - 1"
      then have "k \<le> s" using s2 by blast
      moreover have "k \<le> c0" using k Some by simp
      ultimately have "k \<le> m" using k by (intro big) simp_all
      then show "k \<le> r" using k max_r by blast
    qed
    ultimately show ?thesis unfolding gr using odd_r by simp
  qed
qed

theorem get_final_sz_largest_odd_witness:
  "(0::real) \<le> 280 \<and> get_final_sz (300, 310) 700 280 (Some 402) = 401
   \<and> odd (get_final_sz (300, 310) 700 280 (Some 402))
   \<and> get_final_sz (300, 310) 700 280 (Some 402) \<le> 402"
proof -
  have h: "(0::real) \<le> 280" by simp
  have v: "get_final_sz (300, 310) 700 280 (Some 402) = 401"
    by (simp add: get_final_sz_def py_int_def)
  show ?thesis
    using h v get_final_sz_largest_odd [OF h, of 300 310 700 "Some 402"] by simp
qed

section \<open>Properties of first_frames_removal\<close>

lemma ffr_run:
  assumes run: "first_frames_removal d = Inr r"
  shows "\<exists>nfr tmp_fluxes_sky.
     sci d \<noteq> [] \<and> [] \<notin> set (sci d) \<and> [] \<notin> set (sky d) \<and>
     (if fast_reduction d then nfr = 0
      else estimate_nfr_rm (median_axis0 (nat (min_list (map real_ndit (sci d))))
             (sci_fluxes (fast_reduction d) (annulus d) (nat (min_list (map real_ndit (sci d)))) (sci d))) = Some nfr) \<and>
     ndit_sci d \<noteq> [] \<and> sky d \<noteq> [] \<and> ndit_sky d \<noteq> [] \<and> ndit_unsat d \<noteq> [] \<and>
     map_err (\<lambda>(c, row, cnt). rescale_sci nfr cnt row c)
       (zip (sci d) (zip (sci_fluxes (fast_reduction d) (annulus d) (nat (min_list (map real_ndit (sci d)))) (sci d))
          (map (\<lambda>r. min (r - int nfr) (min_list (ndit_sci d) - int nfr)) (map real_ndit (sci d)))))
       = Inr (rmfr_sci r) \<and>
     \<not> min_list (ndit_sci d) - int nfr < 0 \<and>
     \<not> (\<exists>c \<in> set (rmfr_sci r). min_list (ndit_sci d) - int nfr > int (length c)) \<and>
     \<not> (\<not> fast_reduction d \<and> int (nat (min_list (map real_ndit (sci d)))) - int nfr > min_list (ndit_sci d) - int nfr) \<and>
     \<not> min_list (ndit_sky d) - int nfr < 0 \<and>
     (if fast_reduction d then tmp_fluxes_sky = map (\<lambda>c. replicate (nat (min_list (ndit_sky d) - int nfr)) 1) (sky d)
      else map_err (measure_sky (annulus d) nfr (min_list (ndit_sky d) - int nfr)) (sky d) = Inr tmp_fluxes_sky) \<and>
     map_err (\<lambda>(c, row). rescale_sky nfr (min_list (map real_ndit (sky d)) - int nfr) row c)
       (zip (sky d) tmp_fluxes_sky) = Inr (rmfr_sky r) \<and>
     \<not> (plot d \<and> (\<exists>c \<in> set (rmfr_sky r). min_list (ndit_sky d) - int nfr > int (length c))) \<and>
     nfr_rm r = nfr \<and> new_ndit_sci r = min_list (ndit_sci d) - int nfr \<and>
     new_ndit_sky r = min_list (ndit_sky d) - int nfr \<and>
     new_ndit_unsat r = min_list (ndit_unsat d) - int nfr \<and>
     rmfr_unsat r = map (\<lambda>c. drop nfr (butlast c)) (unsat d)"
  using run unfolding first_frames_removal_def Let_def bind_err_Inr_iff raise_if_Inr_iff
  by (auto split: if_splits option.splits)

lemma rescale_sci_len:
  "rescale_sci nfr cnt row c = Inr out \<Longrightarrow> 0 \<le> cnt \<and> length out = nat cnt"
  by (auto simp: rescale_sci_def split: if_splits)

lemma rescale_sky_len:
  "rescale_sky nfr cnt row c = Inr out \<Longrightarrow>
     0 \<le> cnt \<and> length out = nat cnt \<and> (0 < cnt \<longrightarrow> nat cnt \<le> length row)"
  by (auto simp: rescale_sky_def split: if_splits)

lemma measure_sky_len:
  "measure_sky ann nfr new_sky c = Inr row \<Longrightarrow> length row = nat new_sky"
  by (auto simp: measure_sky_def split: if_splits)

lemma sci_fluxes_len: "length (sci_fluxes fast ann n cubes) = length cubes"
  by (simp add: sci_fluxes_def)

lemma ffr_sci_counts:
  assumes run: "first_frames_removal d = Inr r"
  shows "length (rmfr_sci r) = length (sci d)"
    and "\<forall>c \<in> set (rmfr_sci r). int (length c) = min_list (ndit_sci d) - int (nfr_rm r)"
proof -
  define TF where
    "TF = sci_fluxes (fast_reduction d) (annulus d) (nat (min_list (map real_ndit (sci d)))) (sci d)"
  define CNT where
    "CNT = map (\<lambda>x. min (x - int (nfr_rm r)) (min_list (ndit_sci d) - int (nfr_rm r)))
             (map real_ndit (sci d))"
  from ffr_run [OF run] have
    m: "map_err (\<lambda>(c, row, cnt). rescale_sci (nfr_rm r) cnt row c) (zip (sci d) (zip TF CNT))
          = Inr (rmfr_sci r)"
    and chk: "\<not> (\<exists>c \<in> set (rmfr_sci r). min_list (ndit_sci d) - int (nfr_rm r) > int (length c))"
    unfolding TF_def CNT_def by auto
  have lz: "length (zip (sci d) (zip TF CNT)) = length (sci d)"
    by (simp add: TF_def CNT_def sci_fluxes_len)
  from map_err_Inr [OF m] lz have len: "length (rmfr_sci r) = length (sci d)"
    and each: "\<forall>i < length (sci d).
       rescale_sci (nfr_rm r) (CNT ! i) (TF ! i) (sci d ! i) = Inr (rmfr_sci r ! i)"
    by (simp_all add: TF_def CNT_def sci_fluxes_len)
  show "length (rmfr_sci r) = length (sci d)" by (rule len)
  show "\<forall>c \<in> set (rmfr_sci r). int (length c) = min_list (ndit_sci d) - int (nfr_rm r)"
  proof
    fix c assume c: "c \<in> set (rmfr_sci r)"
    then obtain i where i: "i < length (sci d)" and ci: "c = rmfr_sci r ! i"
      using len by (metis in_set_conv_nth)
    from each i ci have "rescale_sci (nfr_rm r) (CNT ! i) (TF ! i) (sci d ! i) = Inr c"
      by simp
    from rescale_sci_len [OF this] have "int (length c) = CNT ! i" by simp
    also have "\<dots> \<le> min_list (ndit_sci d) - int (nfr_rm r)"
      using i by (simp add: CNT_def)
    finally have up: "int (length c) \<le> min_list (ndit_sci d) - int (nfr_rm r)" .
    from chk c have "\<not> min_list (ndit_sci d) - int (nfr_rm r) > int (length c)" by blast
    with up show "int (length c) = min_list (ndit_sci d) - int (nfr_rm r)" by linarith
  qed
qed

lemma ffr_sky_counts:
  assumes run: "first_frames_removal d = Inr r"
  shows "length (rmfr_sky r) = length (sky d)"
    and "\<forall>c \<in> set (rmfr_sky r).
           int (length c) = min_list (map real_ndit (sky d)) - int (nfr_rm r)"
    and "plot d \<Longrightarrow> min_list (map real_ndit (sky d)) = min_list (ndit_sky d)"
proof -
  define cnt where "cnt = min_list (map real_ndit (sky d)) - int (nfr_rm r)"
  define new_sky where "new_sky = min_list (ndit_sky d) - int (nfr_rm r)"
  from ffr_run [OF run] obtain tfs where
    ne: "sky d \<noteq> []" and nonneg: "\<not> new_sky < 0"
    and tfs: "if fast_reduction d then tfs = map (\<lambda>c. replicate (nat new_sky) 1) (sky d)
              else map_err (measure_sky (annulus d) (nfr_rm r) new_sky) (sky d) = Inr tfs"
    and m: "map_err (\<lambda>(c, row). rescale_sky (nfr_rm r) cnt row c) (zip (sky d) tfs)
              = Inr (rmfr_sky r)"
    and chk: "\<not> (plot d \<and> (\<exists>c \<in> set (rmfr_sky r). new_sky > int (length c)))"
    unfolding cnt_def new_sky_def by auto
  have ltfs: "length tfs = length (sky d)"
    and rows: "\<forall>i < length (sky d). length (tfs ! i) = nat new_sky"
  proof -
    show "length tfs = length (sky d)"
    proof (cases "fast_reduction d")
      case True then show ?thesis using tfs by simp
    next
      case False
      then have "map_err (measure_sky (annulus d) (nfr_rm r) new_sky) (sky d) = Inr tfs"
        using tfs by simp
      from map_err_Inr [OF this] show ?thesis by simp
    qed
    show "\<forall>i < length (sky d). length (tfs ! i) = nat new_sky"
    proof (cases "fast_reduction d")
      case True then show ?thesis using tfs by simp
    next
      case False
      then have "map_err (measure_sky (annulus d) (nfr_rm r) new_sky) (sky d) = Inr tfs"
        using tfs by simp
      from map_err_Inr [OF this] show ?thesis using measure_sky_len by blast
    qed
  qed
  from map_err_Inr [OF m] ltfs have len: "length (rmfr_sky r) = length (sky d)"
    and each: "\<forall>i < length (sky d).
       rescale_sky (nfr_rm r) cnt (tfs ! i) (sky d ! i) = Inr (rmfr_sky r ! i)"
    by simp_all
  show "length (rmfr_sky r) = length (sky d)" by (rule len)
  have one: "\<And>i. i < length (sky d) \<Longrightarrow>
      0 \<le> cnt \<and> int (length (rmfr_sky r ! i)) = cnt \<and> cnt \<le> new_sky"
  proof -
    fix i assume i: "i < length (sky d)"
    from each i have "rescale_sky (nfr_rm r) cnt (tfs ! i) (sky d ! i) = Inr (rmfr_sky r ! i)"
      by simp
    from rescale_sky_len [OF this] have a: "0 \<le> cnt" and b: "length (rmfr_sky r ! i) = nat cnt"
      and c: "0 < cnt \<longrightarrow> nat cnt \<le> length (tfs ! i)" by simp_all
    have "cnt \<le> new_sky"
    proof (cases "0 < cnt")
      case True
      then have "nat cnt \<le> nat new_sky" using c rows i by simp
      then show ?thesis using True by linarith
    next
      case False
      then show ?thesis using a nonneg by linarith
    qed
    then show "0 \<le> cnt \<and> int (length (rmfr_sky r ! i)) = cnt \<and> cnt \<le> new_sky"
      using a b by simp
  qed
  show "\<forall>c \<in> set (rmfr_sky r).
           int (length c) = min_list (map real_ndit (sky d)) - int (nfr_rm r)"
  proof
    fix c assume "c \<in> set (rmfr_sky r)"
    then obtain i where "i < length (sky d)" "c = rmfr_sky r ! i"
      using len by (metis in_set_conv_nth)
    then show "int (length c) = min_list (map real_ndit (sky d)) - int (nfr_rm r)"
      using one [of i] by (simp add: cnt_def)
  qed
  show "min_list (map real_ndit (sky d)) = min_list (ndit_sky d)" if p: "plot d"
  proof -
    have z: "0 < length (sky d)" using ne by simp
    then have mem: "rmfr_sky r ! 0 \<in> set (rmfr_sky r)" using len by simp
    from one [OF z] have e: "int (length (rmfr_sky r ! 0)) = cnt" and u: "cnt \<le> new_sky"
      by simp_all
    from chk p mem have "\<not> new_sky > int (length (rmfr_sky r ! 0))" by blast
    with e u have "cnt = new_sky" by linarith
    then show ?thesis by (simp add: cnt_def new_sky_def)
  qed
qed

lemma short_sky_estimate: "estimate_nfr_rm [1, 3, 5] = Some 1"
  by (simp add: estimate_nfr_rm_def np_median_def np_std_def median_val_def std_val_def
      mean_val_def flagged_def)

lemma one_cube_median: "median_axis0 3 [[1, 3, 5]] = [1, 3, 5]"
  by (simp add: median_axis0_def median_val_def upt_rec [of _ "numeral _"]
      upt_rec [of _ "Suc _"])

lemma short_sky_run_result:
  "first_frames_removal short_sky_run =
     Inr \<lparr> nfr_rm = 1, new_ndit_sci = 2, new_ndit_sky = 2, new_ndit_unsat = 2,
           rmfr_sci = [[[Fin 3], [Fin 3]]], rmfr_sky = [[[Fin 2]], [[Fin 2]]],
           rmfr_unsat = [] \<rparr>"
  unfolding first_frames_removal_def short_sky_run_def
  by (simp add: bind_err_def raise_if_def real_ndit_def sci_fluxes_def annulus_flux_def
      one_cube_median short_sky_estimate Let_def rescale_sci_def rescale_sky_def
      measure_sky_def scale_frame_def np_median_def median_val_def
      upt_rec [of _ "numeral _"] upt_rec [of _ "Suc _"])

lemma short_sky_run_plot:
  "first_frames_removal (short_sky_run \<lparr> plot := True \<rparr>) = Inl IndexError"
  unfolding first_frames_removal_def short_sky_run_def
  by (simp add: bind_err_def raise_if_def real_ndit_def sci_fluxes_def annulus_flux_def
      one_cube_median short_sky_estimate Let_def rescale_sci_def rescale_sky_def
      measure_sky_def scale_frame_def np_median_def median_val_def
      upt_rec [of _ "numeral _"] upt_rec [of _ "Suc _"])

text \<open>
  C1. The run on \<open>short_sky_run\<close> trims one frame and completes. The science cube is
  written with 2 frames, the nominal count 3 minus \<open>nfr_rm\<close>. Both sky cubes are written
  with 1 frame, the smallest actual sky count 2 minus \<open>nfr_rm\<close>, while the count that the
  method records and prints as the new number of frames of each sky cube,
  \<open>new_ndit_sky\<close>, is 2. With plots enabled the same dataset ends in \<open>IndexError\<close>, in
  the re-measurement that reads \<open>new_ndit_sky\<close> frames from each written sky cube.
\<close>

theorem ffr_sky_count_below_recorded:
  "first_frames_removal short_sky_run =
     Inr \<lparr> nfr_rm = 1, new_ndit_sci = 2, new_ndit_sky = 2, new_ndit_unsat = 2,
           rmfr_sci = [[[Fin 3], [Fin 3]]], rmfr_sky = [[[Fin 2]], [[Fin 2]]],
           rmfr_unsat = [] \<rparr>
   \<and> min_list (ndit_sky short_sky_run) - 1 = 2
   \<and> map length [[[Fin 2]], [[Fin 2 :: npfloat]]] = [1, 1]
   \<and> first_frames_removal (short_sky_run \<lparr> plot := True \<rparr>) = Inl IndexError"
  using short_sky_run_result short_sky_run_plot by (simp add: short_sky_run_def)

lemma flagged_iff: "flagged med std ii x \<longleftrightarrow> ii = 0 \<or> 2 * std < \<bar>x - med\<bar>"
  unfolding flagged_def by (cases "med \<le> x") auto

lemma find_nfr_rm_Some_iff:
  "find_nfr_rm m s i xs = Some n \<longleftrightarrow>
     (\<exists>k < length xs. \<not> flagged m s (i + k) (xs ! k)
        \<and> (\<forall>j < k. flagged m s (i + j) (xs ! j)) \<and> n = min (i + k) 10)"
proof (induction xs arbitrary: i)
  case Nil
  then show ?case by simp
next
  case (Cons x xs)
  show ?case
  proof (cases "flagged m s i x")
    case True
    have "find_nfr_rm m s i (x # xs) = Some n \<longleftrightarrow> find_nfr_rm m s (Suc i) xs = Some n"
      using True by simp
    also have "\<dots> \<longleftrightarrow> (\<exists>k < length xs. \<not> flagged m s (Suc i + k) (xs ! k)
        \<and> (\<forall>j < k. flagged m s (Suc i + j) (xs ! j)) \<and> n = min (Suc i + k) 10)"
      by (rule Cons.IH)
    also have "\<dots> \<longleftrightarrow> (\<exists>k < length (x # xs). \<not> flagged m s (i + k) ((x # xs) ! k)
        \<and> (\<forall>j < k. flagged m s (i + j) ((x # xs) ! j)) \<and> n = min (i + k) 10)"
    proof
      assume "\<exists>k < length xs. \<not> flagged m s (Suc i + k) (xs ! k)
        \<and> (\<forall>j < k. flagged m s (Suc i + j) (xs ! j)) \<and> n = min (Suc i + k) 10"
      then obtain k where k: "k < length xs" "\<not> flagged m s (Suc i + k) (xs ! k)"
        "\<forall>j < k. flagged m s (Suc i + j) (xs ! j)" "n = min (Suc i + k) 10" by blast
      have "\<forall>j < Suc k. flagged m s (i + j) ((x # xs) ! j)"
      proof (intro allI impI)
        fix j assume "j < Suc k"
        then show "flagged m s (i + j) ((x # xs) ! j)"
          using True k(3) by (cases j) simp_all
      qed
      then show "\<exists>k < length (x # xs). \<not> flagged m s (i + k) ((x # xs) ! k)
        \<and> (\<forall>j < k. flagged m s (i + j) ((x # xs) ! j)) \<and> n = min (i + k) 10"
        using k by (intro exI [of _ "Suc k"]) simp
    next
      assume "\<exists>k < length (x # xs). \<not> flagged m s (i + k) ((x # xs) ! k)
        \<and> (\<forall>j < k. flagged m s (i + j) ((x # xs) ! j)) \<and> n = min (i + k) 10"
      then obtain k where k: "k < length (x # xs)" "\<not> flagged m s (i + k) ((x # xs) ! k)"
        "\<forall>j < k. flagged m s (i + j) ((x # xs) ! j)" "n = min (i + k) 10" by blast
      from k(2) True obtain k' where k': "k = Suc k'" by (cases k) auto
      have "\<forall>j < k'. flagged m s (Suc i + j) (xs ! j)"
      proof (intro allI impI)
        fix j assume "j < k'"
        then have "flagged m s (i + Suc j) ((x # xs) ! Suc j)" using k(3) k' by blast
        then show "flagged m s (Suc i + j) (xs ! j)" by simp
      qed
      then show "\<exists>k < length xs. \<not> flagged m s (Suc i + k) (xs ! k)
        \<and> (\<forall>j < k. flagged m s (Suc i + j) (xs ! j)) \<and> n = min (Suc i + k) 10"
        using k k' by (intro exI [of _ k']) simp
    qed
    finally show ?thesis .
  next
    case False
    have l: "find_nfr_rm m s i (x # xs) = Some n \<longleftrightarrow> n = min i 10"
      using False by auto
    have "(\<exists>k < length (x # xs). \<not> flagged m s (i + k) ((x # xs) ! k)
        \<and> (\<forall>j < k. flagged m s (i + j) ((x # xs) ! j)) \<and> n = min (i + k) 10) \<longleftrightarrow> n = min i 10"
    proof
      assume "\<exists>k < length (x # xs). \<not> flagged m s (i + k) ((x # xs) ! k)
        \<and> (\<forall>j < k. flagged m s (i + j) ((x # xs) ! j)) \<and> n = min (i + k) 10"
      then obtain k where k: "\<forall>j < k. flagged m s (i + j) ((x # xs) ! j)" "n = min (i + k) 10"
        by blast
      have "k = 0"
      proof (rule ccontr)
        assume "k \<noteq> 0"
        then have "flagged m s (i + 0) ((x # xs) ! 0)" using k(1) by blast
        then show False using False by simp
      qed
      then show "n = min i 10" using k(2) by simp
    next
      assume "n = min i 10"
      then show "\<exists>k < length (x # xs). \<not> flagged m s (i + k) ((x # xs) ! k)
        \<and> (\<forall>j < k. flagged m s (i + j) ((x # xs) ! j)) \<and> n = min (i + k) 10"
        using False by (intro exI [of _ 0]) simp
    qed
    with l show ?thesis by simp
  qed
qed

lemma estimate_nfr_rm_nonempty:
  "xs \<noteq> [] \<Longrightarrow> estimate_nfr_rm xs = find_nfr_rm (median_val xs) (std_val xs) 0 xs"
  by (simp add: estimate_nfr_rm_def np_median_def np_std_def)

lemma estimate_nfr_rm_empty: "estimate_nfr_rm [] = None"
  by (simp add: estimate_nfr_rm_def np_median_def)

lemma median_axis0_sci_fluxes:
  "median_axis0 n (sci_fluxes False ann n cubes) =
     map (\<lambda>ii. median_val (map (\<lambda>c. annulus_flux ann (c ! ii)) cubes)) [0..<n]"
  by (simp add: median_axis0_def sci_fluxes_def comp_def)

text \<open>
  C3. In a completed full reduction, call a frame-index anomalous when it is index 0 or
  the median across the science cubes of its annular flux differs from the overall median
  of these medians by more than two of their standard deviations. Then some frame-index
  is not anomalous, and \<open>nfr_rm\<close> is the first such index, capped at 10.
\<close>

theorem nfr_rm_first_good_capped:
  assumes "first_frames_removal d = Inr r" and "\<not> fast_reduction d"
  shows "\<exists>g < nat (min_list (map real_ndit (sci d))).
           (let n = nat (min_list (map real_ndit (sci d)));
                flux = (\<lambda>ii. median_val (map (\<lambda>c. annulus_flux (annulus d) (c ! ii)) (sci d)));
                med_flux = median_val (map flux [0..<n]);
                std_flux = std_val (map flux [0..<n]);
                anomalous = (\<lambda>ii. ii = 0 \<or> 2 * std_flux < \<bar>flux ii - med_flux\<bar>)
            in \<not> anomalous g \<and> (\<forall>ii < g. anomalous ii)
               \<and> nfr_rm r = min g 10 \<and> nfr_rm r \<le> 10)"
proof -
  define n where "n = nat (min_list (map real_ndit (sci d)))"
  define flux where
    "flux = (\<lambda>ii. median_val (map (\<lambda>c. annulus_flux (annulus d) (c ! ii)) (sci d)))"
  define xs where "xs = map flux [0..<n]"
  from ffr_run [OF assms(1)] assms(2)
  have "estimate_nfr_rm (median_axis0 n (sci_fluxes False (annulus d) n (sci d)))
          = Some (nfr_rm r)"
    unfolding n_def by auto
  then have est: "estimate_nfr_rm xs = Some (nfr_rm r)"
    unfolding median_axis0_sci_fluxes xs_def flux_def .
  have ne: "xs \<noteq> []" using est estimate_nfr_rm_empty by auto
  from est have "find_nfr_rm (median_val xs) (std_val xs) 0 xs = Some (nfr_rm r)"
    unfolding estimate_nfr_rm_nonempty [OF ne] .
  then obtain k where k: "k < length xs" "\<not> flagged (median_val xs) (std_val xs) k (xs ! k)"
    "\<forall>j < k. flagged (median_val xs) (std_val xs) j (xs ! j)" "nfr_rm r = min k 10"
    using find_nfr_rm_Some_iff [of "median_val xs" "std_val xs" 0 xs "nfr_rm r"] by auto
  have kn: "k < n" using k(1) by (simp add: xs_def)
  have xk: "xs ! k = flux k" using kn by (simp add: xs_def)
  have good: "\<not> (k = 0 \<or> 2 * std_val xs < \<bar>flux k - median_val xs\<bar>)"
    using k(2) unfolding flagged_iff xk .
  have bad: "\<forall>ii < k. ii = 0 \<or> 2 * std_val xs < \<bar>flux ii - median_val xs\<bar>"
  proof (intro allI impI)
    fix ii assume ii: "ii < k"
    then have "xs ! ii = flux ii" using kn by (simp add: xs_def)
    then show "ii = 0 \<or> 2 * std_val xs < \<bar>flux ii - median_val xs\<bar>"
      using k(3) ii unfolding flagged_iff by auto
  qed
  have "nfr_rm r \<le> 10" using k(4) by simp
  then have "\<not> (k = 0 \<or> 2 * std_val xs < \<bar>flux k - median_val xs\<bar>)
      \<and> (\<forall>ii < k. ii = 0 \<or> 2 * std_val xs < \<bar>flux ii - median_val xs\<bar>)
      \<and> nfr_rm r = min k 10 \<and> nfr_rm r \<le> 10"
    using good bad k(4) by blast
  then show ?thesis
    unfolding Let_def n_def [symmetric] flux_def [symmetric] xs_def [symmetric]
    using kn by blast
qed

lemma settling_flux_med:
  "median_axis0 10 (sci_fluxes False [True] 10 settling_cubes)
     = [10, 15, 15, 10, 10, 10, 10, 10, 10, 10]"
  by (simp add: median_axis0_def sci_fluxes_def median_val_def annulus_flux_def
      settling_cubes_def upt_rec [of _ "numeral _"] upt_rec [of _ "Suc _"])

lemma settling_stats:
  "median_val [10, 15, 15, 10, 10, 10, 10, 10, 10, 10] = 10"
  "std_val [10, 15, 15, 10, 10, 10, 10, 10, 10, 10] = 2"
proof -
  show "median_val [10, 15, 15, 10, 10, 10, 10, 10, 10, 10] = 10"
    by (simp add: median_val_def)
  have m: "mean_val [10, 15, 15, 10, 10, 10, 10, 10, 10, 10] = 11"
    by (simp add: mean_val_def)
  have "std_val [10, 15, 15, 10, 10, 10, 10, 10, 10, 10] = sqrt 4"
    unfolding std_val_def m by simp
  also have "sqrt 4 = (2::real)" using real_sqrt_abs [of 2] by simp
  finally show "std_val [10, 15, 15, 10, 10, 10, 10, 10, 10, 10] = 2" .
qed

lemma settling_estimate:
  "estimate_nfr_rm [10, 15, 15, 10, 10, 10, 10, 10, 10, 10] = Some 3"
  by (simp add: estimate_nfr_rm_def np_median_def np_std_def settling_stats flagged_def)

lemma settling_rows:
  "sci_fluxes False [True] 10
     [[[17], [19], [10], [10], [10], [10], [10], [10], [10], [10], [10]],
      [[10], [15], [15], [10], [10], [10], [10], [10], [10], [10], [10]],
      [[7], [11], [15], [10], [10], [10], [10], [10], [10], [10], [10]]] =
      [[17, 19, 10, 10, 10, 10, 10, 10, 10, 10],
       [10, 15, 15, 10, 10, 10, 10, 10, 10, 10],
       [7, 11, 15, 10, 10, 10, 10, 10, 10, 10]]"
  by (simp add: sci_fluxes_def annulus_flux_def
      upt_rec [of _ "numeral _"] upt_rec [of _ "Suc _"])

lemma settling_rows_med:
  "median_axis0 10
     [[17, 19, 10, 10, 10, 10, 10, 10, 10, 10],
      [10, 15, 15, 10, 10, 10, 10, 10, 10, 10],
      [7, 11, 15, 10, 10, 10, 10, 10, 10, 10]]
     = [10, 15, 15, 10, 10, 10, 10, 10, 10, 10]"
  using settling_flux_med unfolding settling_cubes_def settling_rows .

lemma settling_row_medians:
  "np_median [17, 19, 10, 10, 10, 10, 10, 10, 10, 10] = Fin 10"
  "np_median [10, 15, 15, 10, 10, 10, 10, 10, 10, 10] = Fin 10"
  "np_median [7, 11, 15, 10, 10, 10, 10, 10, 10, 10] = Fin 10"
  "np_median [2, 2, 2, 2 :: real] = Fin 2"
  by (simp_all add: np_median_def median_val_def)

lemma settling_run_result:
  "first_frames_removal settling_run =
     Inr \<lparr> nfr_rm = 3, new_ndit_sci = 7, new_ndit_sky = 7, new_ndit_unsat = 7,
           rmfr_sci = [[[Fin 10], [Fin 10], [Fin 10], [Fin 10], [Fin 10], [Fin 10], [Fin 10]],
                       [[Fin 10], [Fin 10], [Fin 10], [Fin 10], [Fin 10], [Fin 10], [Fin 10]],
                       [[Fin 10], [Fin 10], [Fin 10], [Fin 10], [Fin 10], [Fin 10], [Fin 10]]],
           rmfr_sky = [[[Fin 2], [Fin 2], [Fin 2], [Fin 2], [Fin 2], [Fin 2], [Fin 2]]],
           rmfr_unsat = [] \<rparr>"
  unfolding first_frames_removal_def settling_run_def settling_cubes_def
  by (simp add: bind_err_def raise_if_def real_ndit_def Let_def settling_rows
      settling_rows_med settling_estimate rescale_sci_def rescale_sky_def measure_sky_def
      scale_frame_def settling_row_medians annulus_flux_def
      upt_rec [of _ "numeral _"] upt_rec [of _ "Suc _"])

theorem nfr_rm_first_good_capped_witness:
  "first_frames_removal settling_run =
     Inr \<lparr> nfr_rm = 3, new_ndit_sci = 7, new_ndit_sky = 7, new_ndit_unsat = 7,
           rmfr_sci = [[[Fin 10], [Fin 10], [Fin 10], [Fin 10], [Fin 10], [Fin 10], [Fin 10]],
                       [[Fin 10], [Fin 10], [Fin 10], [Fin 10], [Fin 10], [Fin 10], [Fin 10]],
                       [[Fin 10], [Fin 10], [Fin 10], [Fin 10], [Fin 10], [Fin 10], [Fin 10]]],
           rmfr_sky = [[[Fin 2], [Fin 2], [Fin 2], [Fin 2], [Fin 2], [Fin 2], [Fin 2]]],
           rmfr_unsat = [] \<rparr>
   \<and> \<not> fast_reduction settling_run
   \<and> map (\<lambda>ii. median_val (map (\<lambda>c. annulus_flux (annulus settling_run) (c ! ii))
                              (sci settling_run))) [0..<10]
       = [10, 15, 15, 10, 10, 10, 10, 10, 10, 10]
   \<and> (\<exists>g < 10. \<not> (g = 0 \<or> 2 * 2 < \<bar>[10, 15, 15, 10, 10, 10, 10, 10, 10, 10] ! g - (10 :: real)\<bar>)
         \<and> (3 :: nat) = min g 10)"
proof -
  have nf: "\<not> fast_reduction settling_run" by (simp add: settling_run_def)
  have fl: "map (\<lambda>ii. median_val (map (\<lambda>c. annulus_flux (annulus settling_run) (c ! ii))
                              (sci settling_run))) [0..<10]
       = [10, 15, 15, 10, 10, 10, 10, 10, 10, 10]"
    using settling_flux_med unfolding median_axis0_sci_fluxes by (simp add: settling_run_def)
  have n: "nat (min_list (map real_ndit (sci settling_run))) = 10"
    by (simp add: settling_run_def settling_cubes_def real_ndit_def)
  note t = nfr_rm_first_good_capped [OF settling_run_result nf]
  have "\<exists>g < 10. \<not> (g = 0 \<or> 2 * 2 < \<bar>[10, 15, 15, 10, 10, 10, 10, 10, 10, 10] ! g - (10 :: real)\<bar>)
         \<and> (3 :: nat) = min g 10"
  proof -
    from t obtain g where g: "g < 10"
      "\<not> (g = 0 \<or> 2 * std_val (map (\<lambda>ii. median_val (map (\<lambda>c. annulus_flux (annulus settling_run) (c ! ii))
                              (sci settling_run))) [0..<10])
            < \<bar>median_val (map (\<lambda>c. annulus_flux (annulus settling_run) (c ! g)) (sci settling_run))
               - median_val (map (\<lambda>ii. median_val (map (\<lambda>c. annulus_flux (annulus settling_run) (c ! ii))
                              (sci settling_run))) [0..<10])\<bar>)"
      "(3 :: nat) = min g 10"
      unfolding Let_def n by auto
    have "[10, 15, 15, 10, 10, 10, 10, 10, 10, 10] ! g
            = median_val (map (\<lambda>c. annulus_flux (annulus settling_run) (c ! g)) (sci settling_run))"
      using g(1) by (simp add: fl [symmetric] del: upt_Suc)
    then have "\<not> (g = 0 \<or> 2 * 2 < \<bar>[10, 15, 15, 10, 10, 10, 10, 10, 10, 10] ! g - (10 :: real)\<bar>)"
      using g(2) unfolding fl settling_stats by simp
    then show ?thesis using g(1,3) by blast
  qed
  then show ?thesis using settling_run_result nf fl by blast
qed

lemma bright_start_stats:
  "median_val bright_start_fluxes = 0" "std_val bright_start_fluxes = 2"
proof -
  have s: "sort bright_start_fluxes =
       [0, 0, 0, 0, 0, 0, 0, 0, 0, 0, 0, 0, 0, 0, 0, 0, 0, 0, 0, 0, 0, 0, 0, 0,
        0, 0, 0, 0, 0, 0, 0, 0, 0, 0, 0, 0, 0, 0, 0, 0, 5, 5, 5, 5, 5, 5, 5, 5,
        5, 5]"
    by (simp add: bright_start_fluxes_def)
  show "median_val bright_start_fluxes = 0"
    unfolding median_val_def s Let_def
    by (simp add: bright_start_fluxes_def)
  have m: "mean_val bright_start_fluxes = 1"
    by (simp add: mean_val_def bright_start_fluxes_def)
  have "sum_list (map (\<lambda>x. (x - 1)\<^sup>2) bright_start_fluxes) / real (length bright_start_fluxes) = 4"
    by (simp add: bright_start_fluxes_def)
  then have "std_val bright_start_fluxes = sqrt 4"
    unfolding std_val_def m by simp
  also have "sqrt 4 = (2::real)" using real_sqrt_abs [of 2] by simp
  finally show "std_val bright_start_fluxes = 2" .
qed

lemma bright_start_flux_med:
  "median_axis0 50 (sci_fluxes False [True] 50 [bright_start_cube]) = bright_start_fluxes"
  by (simp add: median_axis0_def sci_fluxes_def median_val_def annulus_flux_def
      bright_start_cube_def bright_start_fluxes_def upt_rec [of _ "numeral _"]
      upt_rec [of _ "Suc _"] nth_append)

text \<open>
  The cap at work: for the cube \<open>bright_start_cube\<close> the first frame-index that is not
  flagged is 11, and the estimate is 10.
\<close>

lemma nfr_rm_cap_reached:
  "estimate_nfr_rm (median_axis0 50 (sci_fluxes False [True] 50 [bright_start_cube])) = Some 10
   \<and> flagged (median_val bright_start_fluxes) (std_val bright_start_fluxes) 10
        (bright_start_fluxes ! 10)
   \<and> \<not> flagged (median_val bright_start_fluxes) (std_val bright_start_fluxes) 11
        (bright_start_fluxes ! 11)"
proof -
  have ne: "bright_start_fluxes \<noteq> []" by (simp add: bright_start_fluxes_def)
  have "find_nfr_rm 0 2 0 bright_start_fluxes = Some 10"
    by (simp add: bright_start_fluxes_def flagged_def)
  then have "estimate_nfr_rm bright_start_fluxes = Some 10"
    using estimate_nfr_rm_nonempty [OF ne] bright_start_stats by simp
  moreover have "flagged 0 2 10 (bright_start_fluxes ! 10)"
    by (simp add: bright_start_fluxes_def flagged_def)
  moreover have "\<not> flagged 0 2 11 (bright_start_fluxes ! 11)"
    by (simp add: bright_start_fluxes_def flagged_def)
  ultimately show ?thesis using bright_start_stats bright_start_flux_med by simp
qed

lemma scale_frame_fin:
  "flux \<noteq> 0 \<Longrightarrow> scale_frame fr (Fin m) flux = map (\<lambda>p. Fin (p * m / flux)) fr"
  by (simp add: scale_frame_def)

lemma scale_frame_unchanged:
  "flux \<noteq> 0 \<Longrightarrow> scale_frame fr (Fin flux) flux = map Fin fr"
  by (simp add: scale_frame_def)

lemma rescale_sci_nth:
  assumes "rescale_sci nfr cnt row c = Inr out" and "j < length out"
  shows "out ! j = scale_frame (c ! (nfr + j)) (np_median row) (row ! (nfr + j))"
    and "nfr + j < length row" and "nfr + j < length c"
proof -
  from assms(1) have cnt: "0 \<le> cnt" and len: "length out = nat cnt"
    by (rule rescale_sci_len [THEN conjunct1], rule rescale_sci_len [THEN conjunct2])
  have pos: "0 < cnt" using assms(2) len by linarith
  from assms(1) pos have ok: "nfr + nat cnt \<le> length c" "nfr + nat cnt \<le> length row"
    and out: "out = map (\<lambda>dd. scale_frame (c ! dd) (np_median row) (row ! dd))
                     [nfr..<nfr + nat cnt]"
    by (auto simp: rescale_sci_def split: if_splits)
  show "nfr + j < length row" "nfr + j < length c" using ok assms(2) len by linarith+
  show "out ! j = scale_frame (c ! (nfr + j)) (np_median row) (row ! (nfr + j))"
    using assms(2) len unfolding out by simp
qed

lemma drift_run_result:
  "first_frames_removal drift_run =
     Inr \<lparr> nfr_rm = 1, new_ndit_sci = 2, new_ndit_sky = 2, new_ndit_unsat = 2,
           rmfr_sci = [[[Fin 3], [Fin 3]]], rmfr_sky = [[[Fin 2], [Fin 2]]],
           rmfr_unsat = [] \<rparr>"
proof -
  have med: "median_axis0 3 [[1, 3, 5]] = [1, 3, 5]"
    by (simp add: median_axis0_def median_val_def upt_rec [of _ "numeral _"]
        upt_rec [of _ "Suc _"])
  have nfr: "estimate_nfr_rm [1, 3, 5] = Some 1"
    by (simp add: estimate_nfr_rm_def np_median_def np_std_def median_val_def std_val_def
        mean_val_def flagged_def)
  show ?thesis
    unfolding first_frames_removal_def drift_run_def
    by (simp add: bind_err_def raise_if_def real_ndit_def sci_fluxes_def annulus_flux_def
        med nfr Let_def rescale_sci_def rescale_sky_def measure_sky_def scale_frame_def
        np_median_def median_val_def upt_rec [of _ "numeral _"] upt_rec [of _ "Suc _"])
qed

text \<open>
  In a completed run, retained frame \<open>j\<close> of science cube \<open>sc\<close> is frame \<open>nfr_rm + j\<close>
  of the input cube multiplied by the median of the whole row \<open>tmp_fluxes[sc]\<close> and
  divided by that frame's own entry of the row. Outside a fast reduction the row holds
  the annular fluxes of the first \<open>min_ndit_sci\<close> frames of the cube, the trimmed leading
  frames included.
\<close>

lemma sci_rescale_by_row_median:
  assumes "first_frames_removal d = Inr r" and "sc < length (sci d)"
    and "j < length (rmfr_sci r ! sc)"
    and "row = sci_fluxes (fast_reduction d) (annulus d)
                 (nat (min_list (map real_ndit (sci d)))) (sci d) ! sc"
  shows "rmfr_sci r ! sc ! j =
           scale_frame (sci d ! sc ! (nfr_rm r + j)) (np_median row) (row ! (nfr_rm r + j))
       \<and> nfr_rm r + j < length row
       \<and> (\<not> fast_reduction d \<longrightarrow>
            row = map (\<lambda>ii. annulus_flux (annulus d) (sci d ! sc ! ii))
                    [0..<nat (min_list (map real_ndit (sci d)))])
       \<and> (\<forall>m. np_median row = Fin m \<and> row ! (nfr_rm r + j) \<noteq> 0 \<longrightarrow>
            rmfr_sci r ! sc ! j =
              map (\<lambda>p. Fin (p * m / row ! (nfr_rm r + j))) (sci d ! sc ! (nfr_rm r + j)))
       \<and> (np_median row = Fin (row ! (nfr_rm r + j)) \<and> row ! (nfr_rm r + j) \<noteq> 0 \<longrightarrow>
            rmfr_sci r ! sc ! j = map Fin (sci d ! sc ! (nfr_rm r + j)))"
proof -
  define TF where
    "TF = sci_fluxes (fast_reduction d) (annulus d) (nat (min_list (map real_ndit (sci d)))) (sci d)"
  define CNT where
    "CNT = map (\<lambda>x. min (x - int (nfr_rm r)) (min_list (ndit_sci d) - int (nfr_rm r)))
             (map real_ndit (sci d))"
  from ffr_run [OF assms(1)] have
    m: "map_err (\<lambda>(c, row, cnt). rescale_sci (nfr_rm r) cnt row c) (zip (sci d) (zip TF CNT))
          = Inr (rmfr_sci r)"
    unfolding TF_def CNT_def by auto
  have lz: "length (zip (sci d) (zip TF CNT)) = length (sci d)"
    by (simp add: TF_def CNT_def sci_fluxes_len)
  have row: "row = TF ! sc" using assms(4) by (simp add: TF_def)
  from map_err_Inr [OF m] lz assms(2)
  have one: "rescale_sci (nfr_rm r) (CNT ! sc) row (sci d ! sc) = Inr (rmfr_sci r ! sc)"
    by (simp add: TF_def CNT_def sci_fluxes_len row)
  note n = rescale_sci_nth [OF one assms(3)]
  have nonfast: "\<not> fast_reduction d \<longrightarrow>
            row = map (\<lambda>ii. annulus_flux (annulus d) (sci d ! sc ! ii))
                    [0..<nat (min_list (map real_ndit (sci d)))]"
    using assms(2) by (simp add: row TF_def sci_fluxes_def)
  have fin: "\<forall>m. np_median row = Fin m \<and> row ! (nfr_rm r + j) \<noteq> 0 \<longrightarrow>
            rmfr_sci r ! sc ! j =
              map (\<lambda>p. Fin (p * m / row ! (nfr_rm r + j))) (sci d ! sc ! (nfr_rm r + j))"
    using n(1) scale_frame_fin by simp
  have same: "np_median row = Fin (row ! (nfr_rm r + j)) \<and> row ! (nfr_rm r + j) \<noteq> 0 \<longrightarrow>
            rmfr_sci r ! sc ! j = map Fin (sci d ! sc ! (nfr_rm r + j))"
    using n(1) scale_frame_unchanged by simp
  show ?thesis using n(1) n(2) nonfast fin same by blast
qed

text \<open>
  C4. In the run on \<open>drift_run\<close> one frame is trimmed, and the first retained frame, of
  flux 3, is written unchanged, since 3 is the median of the three measured fluxes 1, 3,
  5 of the cube, the trimmed frame included. The ratio of the specification, with the
  median 4 of the retained fluxes 3 and 5, turns its pixel into 4.
\<close>

theorem sci_rescale_median_includes_trimmed:
  "first_frames_removal drift_run =
     Inr \<lparr> nfr_rm = 1, new_ndit_sci = 2, new_ndit_sky = 2, new_ndit_unsat = 2,
           rmfr_sci = [[[Fin 3], [Fin 3]]], rmfr_sky = [[[Fin 2], [Fin 2]]],
           rmfr_unsat = [] \<rparr>
   \<and> map (annulus_flux (annulus drift_run)) (drop 1 (butlast (sci drift_run ! 0))) = [3, 5]
   \<and> scale_frame (sci drift_run ! 0 ! 1)
        (np_median (map (annulus_flux (annulus drift_run)) (drop 1 (butlast (sci drift_run ! 0)))))
        (annulus_flux (annulus drift_run) (sci drift_run ! 0 ! 1)) = [Fin 4]
   \<and> [Fin 4] \<noteq> [[Fin 3], [Fin 3]] ! (0::nat)"
proof -
  have "scale_frame (sci drift_run ! 0 ! 1)
        (np_median (map (annulus_flux (annulus drift_run)) (drop 1 (butlast (sci drift_run ! 0)))))
        (annulus_flux (annulus drift_run) (sci drift_run ! 0 ! 1)) = [Fin 4]"
    by (simp add: drift_run_def scale_frame_def np_median_def median_val_def annulus_flux_def)
  moreover have "map (annulus_flux (annulus drift_run)) (drop 1 (butlast (sci drift_run ! 0)))
                   = [3, 5]"
    by (simp add: drift_run_def annulus_flux_def)
  ultimately show ?thesis using drift_run_result by simp
qed

section \<open>Properties of the dust feature selection\<close>

lemma select_dust_set:
  assumes "select_dust fit cands = Inr kept"
  shows "set kept = {xy \<in> set cands. \<exists>g. fit xy = Inr g \<and> \<not> non_circular g}"
    and "\<forall>xy \<in> set cands. \<exists>g. fit xy = Inr g"
proof -
  from assms obtain fs where fs: "map_err fit cands = Inr fs"
    and kept: "kept = map snd (filter (\<lambda>(i, xy). i \<notin> set
        (filter (\<lambda>dd. non_circular (fs ! dd)) [0..<length cands])) (enumerate 0 cands))"
    by (auto simp: select_dust_def bind_err_Inr_iff Let_def)
  from map_err_Inr [OF fs] have len: "length fs = length cands"
    and each: "\<forall>i < length cands. fit (cands ! i) = Inr (fs ! i)" by simp_all
  show all: "\<forall>xy \<in> set cands. \<exists>g. fit xy = Inr g"
    using each by (metis in_set_conv_nth)
  have mem: "\<And>xy. xy \<in> set kept \<longleftrightarrow>
      (\<exists>i < length cands. cands ! i = xy \<and> \<not> non_circular (fs ! i))"
  proof -
    fix xy
    have "xy \<in> set kept \<longleftrightarrow>
        (\<exists>p \<in> set (enumerate 0 cands). snd p = xy \<and> \<not> non_circular (fs ! fst p))"
      unfolding kept by (auto simp: in_set_enumerate_eq)
    also have "\<dots> \<longleftrightarrow> (\<exists>i < length cands. cands ! i = xy \<and> \<not> non_circular (fs ! i))"
    proof
      assume "\<exists>p \<in> set (enumerate 0 cands). snd p = xy \<and> \<not> non_circular (fs ! fst p)"
      then obtain p where "p \<in> set (enumerate 0 cands)" "snd p = xy"
        "\<not> non_circular (fs ! fst p)" by blast
      then show "\<exists>i < length cands. cands ! i = xy \<and> \<not> non_circular (fs ! i)"
        by (intro exI [of _ "fst p"]) (simp add: in_set_enumerate_eq)
    next
      assume "\<exists>i < length cands. cands ! i = xy \<and> \<not> non_circular (fs ! i)"
      then obtain i where i: "i < length cands" "cands ! i = xy" "\<not> non_circular (fs ! i)"
        by blast
      then have "(i, xy) \<in> set (enumerate 0 cands)" by (simp add: in_set_enumerate_eq)
      then show "\<exists>p \<in> set (enumerate 0 cands). snd p = xy \<and> \<not> non_circular (fs ! fst p)"
        using i(3) by force
    qed
    finally show "xy \<in> set kept \<longleftrightarrow>
      (\<exists>i < length cands. cands ! i = xy \<and> \<not> non_circular (fs ! i))" .
  qed
  show "set kept = {xy \<in> set cands. \<exists>g. fit xy = Inr g \<and> \<not> non_circular g}"
  proof (intro set_eqI iffI)
    fix xy assume "xy \<in> set kept"
    then obtain i where i: "i < length cands" "cands ! i = xy" "\<not> non_circular (fs ! i)"
      using mem by blast
    then have "fit xy = Inr (fs ! i)" using each by auto
    then show "xy \<in> {xy \<in> set cands. \<exists>g. fit xy = Inr g \<and> \<not> non_circular g}"
      using i by auto
  next
    fix xy assume "xy \<in> {xy \<in> set cands. \<exists>g. fit xy = Inr g \<and> \<not> non_circular g}"
    then obtain g where g: "xy \<in> set cands" "fit xy = Inr g" "\<not> non_circular g" by blast
    then obtain i where i: "i < length cands" "cands ! i = xy"
      by (metis in_set_conv_nth)
    then have "fs ! i = g" using each g(2) by auto
    then show "xy \<in> set kept" using mem i g(3) by blast
  qed
qed

lemma circular_ratio:
  assumes "\<not> non_circular g"
  shows "fwhm_ratio g = NaN \<or> (\<exists>q. fwhm_ratio g = Fin q \<and> 0.8 \<le> q \<and> q \<le> 1.2)"
  using assms by (cases "fwhm_ratio g") (auto simp: non_circular_def)

lemma off_centre_distance:
  assumes "\<bar>y - cy\<bar> > 3 * fwhm" and "\<bar>x - cx\<bar> > 3 * fwhm"
  shows "sqrt ((x - cx)\<^sup>2 + (y - cy)\<^sup>2) > 3 * fwhm"
proof -
  have "\<bar>x - cx\<bar> \<le> sqrt ((x - cx)\<^sup>2 + (y - cy)\<^sup>2)"
    by (rule real_le_rsqrt) simp
  then show ?thesis using assms(2) by linarith
qed

text \<open>
  What the selection guarantees in every completed run: a dust feature \<open>(x, y)\<close> kept for
  the alignment comes from a detection that is more than \<open>3 * fwhm\<close> away from the
  centre in \<open>y\<close> and in \<open>x\<close> (hence in distance), that is outside the lower-left
  quadrant (\<open>y > cy\<close> or \<open>x > cx\<close>) and whose SNR is above the alignment threshold 10;
  its fitted ratio \<open>fwhm_y / fwhm_x\<close> lies in \<open>[0.8, 1.2]\<close> or is \<open>nan\<close>. Every
  candidate whose fitted ratio is below 0.8 or above 1.2 is discarded.
\<close>

lemma dust_features_kept:
  assumes run: "dust_xy fit cy cx fwhm table_det = Inr kept"
  shows "\<forall>xy \<in> set kept. \<exists>d \<in> set table_det. \<exists>g.
            xy = (det_x d, det_y d) \<and> fit xy = Inr g
          \<and> (fwhm_ratio g = NaN \<or> (\<exists>q. fwhm_ratio g = Fin q \<and> 0.8 \<le> q \<and> q \<le> 1.2))
          \<and> \<bar>det_y d - cy\<bar> > 3 * fwhm \<and> \<bar>det_x d - cx\<bar> > 3 * fwhm
          \<and> sqrt ((det_x d - cx)\<^sup>2 + (det_y d - cy)\<^sup>2) > 3 * fwhm
          \<and> (det_y d > cy \<or> det_x d > cx)
          \<and> np_gt (px_snr d) snr_thr"
    and "\<forall>xy \<in> set (dust_xy_tmp cy cx fwhm table_det). \<forall>g.
            fit xy = Inr g \<and> (np_lt (fwhm_ratio g) 0.8 \<or> np_gt (fwhm_ratio g) 1.2)
            \<longrightarrow> xy \<notin> set kept"
proof -
  let ?cands = "dust_xy_tmp cy cx fwhm table_det"
  from run have sel: "select_dust fit ?cands = Inr kept" by (simp add: dust_xy_def)
  note k = select_dust_set [OF sel]
  show "\<forall>xy \<in> set kept. \<exists>d \<in> set table_det. \<exists>g.
            xy = (det_x d, det_y d) \<and> fit xy = Inr g
          \<and> (fwhm_ratio g = NaN \<or> (\<exists>q. fwhm_ratio g = Fin q \<and> 0.8 \<le> q \<and> q \<le> 1.2))
          \<and> \<bar>det_y d - cy\<bar> > 3 * fwhm \<and> \<bar>det_x d - cx\<bar> > 3 * fwhm
          \<and> sqrt ((det_x d - cx)\<^sup>2 + (det_y d - cy)\<^sup>2) > 3 * fwhm
          \<and> (det_y d > cy \<or> det_x d > cx)
          \<and> np_gt (px_snr d) snr_thr"
  proof
    fix xy assume "xy \<in> set kept"
    then obtain g where c: "xy \<in> set ?cands" and g: "fit xy = Inr g" "\<not> non_circular g"
      using k(1) by blast
    from c obtain d where d: "d \<in> set table_det" "xy = (det_x d, det_y d)"
      "off_centre cy cx fwhm d" "det_y d > cy \<or> det_x d > cx" "np_gt (px_snr d) snr_thr"
      by (auto simp: dust_xy_tmp_def)
    have far: "\<bar>det_y d - cy\<bar> > 3 * fwhm" "\<bar>det_x d - cx\<bar> > 3 * fwhm"
      using d(3) by (simp_all add: off_centre_def)
    show "\<exists>d \<in> set table_det. \<exists>g.
            xy = (det_x d, det_y d) \<and> fit xy = Inr g
          \<and> (fwhm_ratio g = NaN \<or> (\<exists>q. fwhm_ratio g = Fin q \<and> 0.8 \<le> q \<and> q \<le> 1.2))
          \<and> \<bar>det_y d - cy\<bar> > 3 * fwhm \<and> \<bar>det_x d - cx\<bar> > 3 * fwhm
          \<and> sqrt ((det_x d - cx)\<^sup>2 + (det_y d - cy)\<^sup>2) > 3 * fwhm
          \<and> (det_y d > cy \<or> det_x d > cx)
          \<and> np_gt (px_snr d) snr_thr"
      using d(1,2,4,5) g(1) circular_ratio [OF g(2)] far off_centre_distance [OF far]
      by blast
  qed
  show "\<forall>xy \<in> set ?cands. \<forall>g.
            fit xy = Inr g \<and> (np_lt (fwhm_ratio g) 0.8 \<or> np_gt (fwhm_ratio g) 1.2)
            \<longrightarrow> xy \<notin> set kept"
  proof (intro ballI allI impI)
    fix xy g
    assume "xy \<in> set ?cands"
      and a: "fit xy = Inr g \<and> (np_lt (fwhm_ratio g) 0.8 \<or> np_gt (fwhm_ratio g) 1.2)"
    then have "non_circular g" by (simp add: non_circular_def)
    then show "xy \<notin> set kept" using k(1) a by auto
  qed
qed

lemma speck_run: "dust_xy speck_fit 50 50 4 speck_table = Inr [(70, 80)]"
  by (simp add: dust_xy_def dust_xy_tmp_def speck_table_def off_centre_def snr_thr_def
      select_dust_def bind_err_def speck_fit_def non_circular_def fwhm_ratio_def
      enumerate_eq_zip upt_rec [of _ "numeral _"] upt_rec [of _ "Suc _"])

text \<open>
  C5. With a fit that returns the widths 0 and 0 for the detection at \<open>(90, 20)\<close>, the
  ratio \<open>fwhm_y / fwhm_x\<close> of that candidate is \<open>nan\<close>, which is neither at least 0.8 nor
  at most 1.2; both comparisons of the test are false for it, and the candidate is kept
  for the alignment.
\<close>

theorem nan_ratio_feature_kept:
  "dust_xy zero_width_fit 50 50 4 speck_table = Inr [(70, 80), (90, 20)]
   \<and> zero_width_fit (90, 20) = Inr \<lparr> fwhm_x = Fin 0, fwhm_y = Fin 0 \<rparr>
   \<and> fwhm_ratio \<lparr> fwhm_x = Fin 0, fwhm_y = Fin 0 \<rparr> = NaN
   \<and> \<not> np_le (Fin 0.8) NaN \<and> \<not> np_le NaN (Fin 1.2)
   \<and> \<not> non_circular \<lparr> fwhm_x = Fin 0, fwhm_y = Fin 0 \<rparr>"
  by (simp add: dust_xy_def dust_xy_tmp_def speck_table_def off_centre_def snr_thr_def
      select_dust_def bind_err_def zero_width_fit_def non_circular_def fwhm_ratio_def
      enumerate_eq_zip upt_rec [of _ "numeral _"] upt_rec [of _ "Suc _"])

section \<open>Properties of the shift tables\<close>



















section \<open>The nearest-sky subtraction on four science cubes\<close>

lemma small_float32:
  "to_float32 0 = Fin 0" "to_float32 1 = Fin 1" "to_float32 2 = Fin 2"
  "to_float32 3 = Fin 3" "to_float32 4 = Fin 4" "to_float32 5 = Fin 5"
  "to_float32 (- 1) = Fin (- 1)" "to_float32 (- 2) = Fin (- 2)" "to_float32 (- 3) = Fin (- 3)"
  "to_float32 (- 4) = Fin (- 4)"
  by (simp_all add: to_float32_def binade_def pow2_def round_half_even_def bitlen_def
      compute_floorlog Let_def)

text \<open>
  The rounding of the stored timestamps decides the search: two sky cubes observed 0.0014
  days apart have the same float32 timestamp, so the first one is taken for a science cube
  that is nearer in time to the second.
\<close>

lemma rounded_timestamps_tie:
  "nearest_sky (fits_float32_array [58000.0001, 58000.0015]) 58000.001 = Inr 0"
  "nearest_sky (float64_array [58000.0001, 58000.0015]) 58000.001 = Inr 1"
  by (simp_all add: nearest_sky_def fits_float32_array_def float64_array_def
      find_nearest_arr_def builtin_type_eq_def py_and_def to_float32_def binade_def pow2_def
      round_half_even_def bitlen_def compute_floorlog Let_def)

text \<open>
  C8. On a dataset of four science cubes the nearest-sky mode writes three files only:
  the loop runs over \<open>sci_list_test\<close>, the first, middle and last cube, so that cube \<open>b\<close>
  gets no \<open>4_sky_subtr\<close> output. Each cube that is processed has the median frame of the
  sky cube nearest in time subtracted.
\<close>

theorem median_mode_skips_cube:
  "sky_subtr_median 1 four_sci two_sky =
     Inr [(''4_sky_subtr_imlib_a'', [[Fin 9]]),
          (''4_sky_subtr_imlib_c'', [[Fin 8]]),
          (''4_sky_subtr_imlib_d'', [[Fin 8]])]"
  by (simp add: sky_subtr_median_def four_sci_def two_sky_def bind_err_def raise_if_def
      nearest_sky_def fits_float32_array_def find_nearest_arr_def builtin_type_eq_def
      py_and_def np_get_def median_frame_def np_median_def median_val_def subtract_frame_def
      Let_def small_float32)

section \<open>The offset objectives on an empty selection\<close>

lemma select_mask_none: "\<forall>b \<in> set msk. \<not> b \<Longrightarrow> select_mask msk fr = []"
  by (auto simp: select_mask_def filter_empty_conv dest: set_zip_leftD)

lemma std_crop_734: "std_crop 734 = 0"
  by (simp add: std_crop_def py_int_def)

lemma mask_std_734_empty: "\<forall>b \<in> set (mask_std 734 cyi). \<not> b"
  by (auto simp: mask_std_def std_crop_734 slice_bound_def)

lemma std_crop_lt: "0 < com_sz \<Longrightarrow> 0 < com_sz - std_crop com_sz"
proof -
  assume pos: "0 < com_sz"
  show ?thesis
  proof (cases "com_sz \<le> 733")
    case True
    then show ?thesis using pos by (simp add: std_crop_def)
  next
    case False
    then have "(real_of_int com_sz - 733) / 2 < real_of_int com_sz" by simp
    moreover have "0 \<le> (real_of_int com_sz - 733) / 2" using False by simp
    ultimately have "py_int ((real_of_int com_sz - 733) / 2) < com_sz"
      by (simp add: py_int_def floor_less_iff)
    then show ?thesis using False by (simp add: std_crop_def)
  qed
qed

lemma flat_objective_empty:
  assumes "select_mask msk (residual_frame pca_median diff guess) = []" and "0 < com_sz"
  shows "get_test_diff_flat pca_median diff msk com_sz guess = Inr NaN"
  using assms std_crop_lt [OF assms(2)]
  by (simp add: get_test_diff_flat_def bind_err_def raise_if_def np_std_f_def)

lemma sci_objective_empty:
  assumes "select_mask msk (residual_frame pca_median diff guess) = []"
  shows "get_test_diff_sci pca_median diff msk guess = Inr NaN"
  using assms
  by (simp add: get_test_diff_sci_def bind_err_def raise_if_def np_std_f_def)

text \<open>
  C9, as the code has it. When the diagnostic mask selects no pixel, both objectives of the
  PCA dark subtraction return \<open>nan\<close>, the standard deviation of an empty selection, and
  raise nothing; that value is what the minimisation receives.
\<close>

theorem empty_selection_returns_nan:
  assumes "select_mask msk (residual_frame pca_median diff guess) = []" and "0 < com_sz"
  shows "get_test_diff_flat pca_median diff msk com_sz guess = Inr NaN
       \<and> get_test_diff_sci pca_median diff msk guess = Inr NaN"
  using flat_objective_empty [OF assms] sci_objective_empty [OF assms(1)] by simp

theorem empty_selection_returns_nan_witness:
  "select_mask (mask_std 734 366) (residual_frame (\<lambda>g. replicate (734 * 734) g) [0] 0) = []
   \<and> (0::int) < 734
   \<and> get_test_diff_flat (\<lambda>g. replicate (734 * 734) g) [0] (mask_std 734 366) 734 0 = Inr NaN
   \<and> get_test_diff_sci (\<lambda>g. replicate (734 * 734) g) [0] (mask_std 734 366) 0 = Inr NaN"
proof -
  have e: "select_mask (mask_std 734 366)
             (residual_frame (\<lambda>g. replicate (734 * 734) g) [0] 0) = []"
    by (rule select_mask_none [OF mask_std_734_empty])
  have p: "(0::int) < 734" by simp
  show ?thesis using e p empty_selection_returns_nan [OF e p] by simp
qed

text \<open>
  C9 as stated fails: for a common frame size of 734 pixels the slice \<open>:-crop\<close> has
  \<open>crop = 0\<close> and \<open>mask_std\<close> selects nothing; the flat objective then returns \<open>nan\<close>
  instead of raising.
\<close>

theorem empty_selection_no_error_counterexample:
  "get_test_diff_flat (\<lambda>g. replicate (734 * 734) g) [0] (mask_std 734 366) 734 0 = Inr NaN
   \<and> get_test_diff_flat (\<lambda>g. replicate (734 * 734) g) [0] (mask_std 734 366) 734 0
        \<noteq> Inl ValueError"
proof -
  have e: "select_mask (mask_std 734 366)
             (residual_frame (\<lambda>g. replicate (734 * 734) g) [0] 0) = []"
    by (rule select_mask_none [OF mask_std_734_empty])
  show ?thesis using flat_objective_empty [OF e] by simp
qed

section \<open>Properties of the PCA rank search\<close>

lemma np_sort_f_fin: "np_sort_f (map Fin ys) = map Fin (sort ys)"
proof -
  have "filter is_fin (map Fin ys) = map Fin ys" by (induction ys) simp_all
  moreover have "filter (\<lambda>x. x = NInf) (map Fin ys) = []"
    "filter (\<lambda>x. x = PInf) (map Fin ys) = []" "filter (\<lambda>x. x = NaN) (map Fin ys) = []"
    by (induction ys) simp_all
  moreover have "map fin_val (map Fin ys) = ys" by (induction ys) simp_all
  ultimately show ?thesis by (simp add: np_sort_f_def)
qed

lemma np_mean_f_fin: "ys \<noteq> [] \<Longrightarrow> np_mean_f (map Fin ys) = Fin (mean_val ys)"
proof -
  assume "ys \<noteq> []"
  moreover have "map fin_val (map Fin ys) = ys" by (induction ys) simp_all
  moreover have "NaN \<notin> set (map Fin ys)" "PInf \<notin> set (map Fin ys)" "NInf \<notin> set (map Fin ys)"
    by auto
  ultimately show ?thesis unfolding np_mean_f_def by simp
qed

lemma length_np_sort_f: "length (np_sort_f xs) = length xs"
proof (induction xs)
  case Nil
  then show ?case by (simp add: np_sort_f_def)
next
  case (Cons a xs)
  then show ?case by (cases a) (simp_all add: np_sort_f_def)
qed

lemma last_np_sort_f_nan:
  assumes "NaN \<in> set xs"
  shows "last (np_sort_f xs) = NaN"
proof -
  have ne: "filter (\<lambda>x. x = NaN) xs \<noteq> []" using assms by (simp add: filter_empty_conv)
  then have "last (filter (\<lambda>x. x = NaN) xs) \<in> set (filter (\<lambda>x. x = NaN) xs)"
    by (rule last_in_set)
  then have "last (filter (\<lambda>x. x = NaN) xs) = NaN" by simp
  then show ?thesis using ne by (simp add: np_sort_f_def)
qed

lemma np_mean_f_nan: "NaN \<in> set xs \<Longrightarrow> np_mean_f xs = NaN"
  by (simp add: np_mean_f_def)

lemma hmean_std_eq:
  "hmean_std circle ndust_all =
     (if 0 < ndust_all \<and> (\<forall>dd < ndust_all. circle dd \<noteq> [])
      then Fin (spec_upper_half_mean circle ndust_all) else NaN)"
proof (cases "0 < ndust_all \<and> (\<forall>dd < ndust_all. circle dd \<noteq> [])")
  case True
  have std: "map (\<lambda>dd. np_std (circle dd)) [0..<ndust_all]
               = map Fin (map (\<lambda>dd. std_val (circle dd)) [0..<ndust_all])"
    using True by (simp add: np_std_def)
  from True have "0 < ndust_all" by simp
  then have "ndust_all div 2 < ndust_all" by simp
  then have ne: "drop (ndust_all div 2) (sort (map (\<lambda>dd. std_val (circle dd)) [0..<ndust_all])) \<noteq> []"
    by simp
  have "hmean_std circle ndust_all = Fin (spec_upper_half_mean circle ndust_all)"
    unfolding hmean_std_def Let_def std np_sort_f_fin drop_map spec_upper_half_mean_def
    by (rule np_mean_f_fin [OF ne])
  then show ?thesis using True by simp
next
  case False
  let ?std = "map (\<lambda>dd. np_std (circle dd)) [0..<ndust_all]"
  have "hmean_std circle ndust_all = NaN"
  proof (cases "ndust_all = 0")
    case True
    then show ?thesis by (simp add: hmean_std_def np_sort_f_def np_mean_f_def)
  next
    case pos: False
    then obtain dd where dd: "dd < ndust_all" "circle dd = []" using False by auto
    have "np_std (circle dd) \<in> set ?std" using dd(1) by auto
    then have nan: "NaN \<in> set ?std" using dd(2) by (simp add: np_std_def)
    let ?s = "np_sort_f ?std"
    have len: "length ?s = ndust_all" by (simp add: length_np_sort_f)
    have lt: "ndust_all div 2 < length ?s" using pos len by simp
    then have dne: "drop (ndust_all div 2) ?s \<noteq> []" by simp
    have "last (drop (ndust_all div 2) ?s) = last ?s" using lt by (rule last_drop)
    then have "last (drop (ndust_all div 2) ?s) = NaN"
      using last_np_sort_f_nan [OF nan] by simp
    then have "NaN \<in> set (drop (ndust_all div 2) ?s)" using last_in_set [OF dne] by simp
    then show ?thesis unfolding hmean_std_def Let_def by (rule np_mean_f_nan)
  qed
  then show ?thesis using False by simp
qed

lemma npc_opt_cube_first_minimum:
  assumes run: "npc_opt_cube aperture ndust_all nnpc master_sky_times sci_times i = Inr opt"
  shows "\<exists>idx k. nearest_sky (float64_array master_sky_times) (sci_times ! i) = Inr idx
           \<and> opt = nnpc ! k
           \<and> first_minimum (map (\<lambda>pc. hmean_std (aperture i idx pc) ndust_all) nnpc) k
           \<and> (0 < ndust_all \<and> (\<forall>pc \<in> set nnpc. \<forall>dd < ndust_all. aperture i idx pc dd \<noteq> []) \<longrightarrow>
                (\<forall>c \<in> set nnpc. spec_upper_half_mean (aperture i idx opt) ndust_all
                                   \<le> spec_upper_half_mean (aperture i idx c) ndust_all))"
proof -
  from run obtain idx k where
    idx: "nearest_sky (float64_array master_sky_times) (sci_times ! i) = Inr idx"
    and k: "np_argmin (map (\<lambda>pc. hmean_std (aperture i idx pc) ndust_all) nnpc) = Inr k"
    and opt: "opt = nnpc ! k"
    by (auto simp: npc_opt_cube_def bind_err_Inr_iff)
  let ?hs = "map (\<lambda>pc. hmean_std (aperture i idx pc) ndust_all) nnpc"
  note f = np_argmin_first_minimum [OF k]
  have kl: "k < length nnpc" using f by (simp add: first_minimum_def)
  have fin: "0 < ndust_all \<and> (\<forall>pc \<in> set nnpc. \<forall>dd < ndust_all. aperture i idx pc dd \<noteq> []) \<longrightarrow>
                (\<forall>c \<in> set nnpc. spec_upper_half_mean (aperture i idx opt) ndust_all
                                   \<le> spec_upper_half_mean (aperture i idx c) ndust_all)"
  proof (intro impI ballI)
    fix c
    assume a: "0 < ndust_all \<and> (\<forall>pc \<in> set nnpc. \<forall>dd < ndust_all. aperture i idx pc dd \<noteq> [])"
      and c: "c \<in> set nnpc"
    have h: "\<And>pc. pc \<in> set nnpc \<Longrightarrow> hmean_std (aperture i idx pc) ndust_all
               = Fin (spec_upper_half_mean (aperture i idx pc) ndust_all)"
      using a by (simp add: hmean_std_eq)
    from c obtain j where j: "j < length nnpc" "c = nnpc ! j" by (metis in_set_conv_nth)
    have "?hs ! k \<noteq> NaN" using h [of "nnpc ! k"] kl by simp
    then have "np_le (?hs ! k) (?hs ! j)" using f j(1) unfolding first_minimum_def by auto
    then show "spec_upper_half_mean (aperture i idx opt) ndust_all
                 \<le> spec_upper_half_mean (aperture i idx c) ndust_all"
      using j kl opt h [of "nnpc ! k"] h [of "nnpc ! j"] by simp
  qed
  show ?thesis using idx opt f fin by blast
qed

lemma median_of_three:
  fixes a b c :: int
  shows "np_median (map real_of_int [a, b, c]) = Fin (real_of_int (sort [a, b, c] ! 1))"
  by (simp add: np_median_def median_val_def)

lemma py_int_of_int: "py_int (real_of_int z) = z"
  by (simp add: py_int_def)

lemma choose_npc_median:
  assumes run: "choose_npc aperture ndust_all n_sky new_sky master_sky_times sci_times npc0
                  = Inr npc"
  shows "\<exists>o0 o1 o2.
           npc_opt_cube aperture ndust_all (candidate_npc n_sky new_sky npc0) master_sky_times
             sci_times 0 = Inr o0
         \<and> npc_opt_cube aperture ndust_all (candidate_npc n_sky new_sky npc0) master_sky_times
             sci_times (length sci_times div 2) = Inr o1
         \<and> npc_opt_cube aperture ndust_all (candidate_npc n_sky new_sky npc0) master_sky_times
             sci_times (length sci_times - 1) = Inr o2
         \<and> npc = sort [o0, o1, o2] ! 1"
proof -
  let ?f = "npc_opt_cube aperture ndust_all (candidate_npc n_sky new_sky npc0)
              master_sky_times sci_times"
  from run obtain opts where m: "map_err ?f [0, length sci_times div 2, length sci_times - 1]
      = Inr opts" and r: "py_int_f (np_median (map real_of_int opts)) = Inr npc"
    by (auto simp: choose_npc_def bind_err_Inr_iff Let_def)
  from m obtain o0 o1 o2 where o: "?f 0 = Inr o0" "?f (length sci_times div 2) = Inr o1"
    "?f (length sci_times - 1) = Inr o2" "opts = [o0, o1, o2]"
    by (auto split: sum.splits)
  have "npc = sort [o0, o1, o2] ! 1"
    using r unfolding o(4) median_of_three by (simp add: py_int_of_int)
  then show ?thesis using o by blast
qed

lemma aperture_stds: "std_val [1, 1] = 0" "std_val [0, 4] = 2" "std_val [0, 6] = 3"
proof -
  show "std_val [1, 1] = 0" by (simp add: std_val_def mean_val_def)
  have "std_val [0, 4] = sqrt 4" by (simp add: std_val_def mean_val_def)
  also have "sqrt 4 = (2::real)" using real_sqrt_abs [of 2] by simp
  finally show "std_val [0, 4] = 2" .
  have "std_val [0, 6] = sqrt 9" by (simp add: std_val_def mean_val_def)
  also have "sqrt 9 = (3::real)" using real_sqrt_abs [of 3] by simp
  finally show "std_val [0, 6] = 3" .
qed

lemma rank_statistics:
  "hmean_std (rank_apertures i idx pc) 2 = (if pc = rank_best i then Fin 2 else Fin 3)"
  by (simp add: hmean_std_def rank_apertures_def np_std_def aperture_stds np_sort_f_def
      np_mean_f_def mean_val_def upt_rec [of _ "numeral _"] upt_rec [of _ "Suc _"])

lemma rank_nearest:
  "nearest_sky (float64_array [0, 6]) 1 = Inr 0" "nearest_sky (float64_array [0, 6]) 2 = Inr 0"
  "nearest_sky (float64_array [0, 6]) 3 = Inr 0" "nearest_sky (float64_array [0, 6]) 4 = Inr 1"
  "nearest_sky (float64_array [0, 6]) 5 = Inr 1"
  by (simp_all add: nearest_sky_def float64_array_def find_nearest_arr_unadjusted)

lemma rank_candidates: "candidate_npc 2 2 (Some [1, 2, 3, 10]) = [1, 2, 3]"
  by (simp add: candidate_npc_def)

lemma rank_optima:
  "npc_opt_cube rank_apertures 2 [1, 2, 3] [0, 6] [1, 2, 3, 4, 5] 0 = Inr 1"
  "npc_opt_cube rank_apertures 2 [1, 2, 3] [0, 6] [1, 2, 3, 4, 5] 2 = Inr 3"
  "npc_opt_cube rank_apertures 2 [1, 2, 3] [0, 6] [1, 2, 3, 4, 5] 4 = Inr 2"
  by (simp_all add: npc_opt_cube_def rank_nearest bind_err_def rank_best_def rank_statistics)

lemma rank_run:
  "sky_subtr_pca (\<lambda>sc idx_sky npc. (sc, idx_sky, npc)) rank_apertures 2 2 2 [0, 6]
     [1, 2, 3, 4, 5] (Some [1, 2, 3, 10])
     = Inr (2, [(0, 0, 2), (1, 0, 2), (2, 0, 2), (3, 1, 2), (4, 1, 2)])"
proof -
  have ti: "[0, length [1, 2, 3, 4, 5 :: real] div 2, length [1, 2, 3, 4, 5 :: real] - 1]
              = [0, 2, 4]"
    by simp
  have me: "map_err (npc_opt_cube rank_apertures 2 [1, 2, 3] [0, 6] [1, 2, 3, 4, 5]) [0, 2, 4]
              = Inr [1, 3, 2]"
    by (simp add: rank_optima)
  have ch: "choose_npc rank_apertures 2 2 2 [0, 6] [1, 2, 3, 4, 5] (Some [1, 2, 3, 10]) = Inr 2"
    unfolding choose_npc_def rank_candidates Let_def ti me
    by (simp add: bind_err_def raise_if_def np_median_def median_val_def py_int_def)
  show ?thesis
    unfolding sky_subtr_pca_def ch
    by (simp add: rank_nearest bind_err_def upt_rec [of _ "numeral _"] upt_rec [of _ "Suc _"])
qed

text \<open>
  C2. A completed PCA sky subtraction with \<open>npc\<close> \<open>None\<close> or a list used one rank for
  every science cube. The statistic \<open>hmean_std\<close> of a candidate rank is the mean of the
  upper half of the sorted per-feature standard deviations of the residual; it is \<open>nan\<close>
  when there is no all-high-SNR feature or an aperture is empty. For each of the first,
  middle and last science cube the optimal rank is the candidate at the \<open>argmin\<close> of the
  statistic, which for finite statistics is a candidate that minimises it, and the rank
  used is the median of these three optima.
\<close>

theorem pca_rank_median_of_optima:
  assumes "sky_subtr_pca pca aperture ndust_all n_sky new_sky master_sky_times sci_times
             npc0 = Inr (npc, outs)"
  shows "(\<forall>i idx pc. hmean_std (aperture i idx pc) ndust_all =
            (if 0 < ndust_all \<and> (\<forall>dd < ndust_all. aperture i idx pc dd \<noteq> [])
             then Fin (spec_upper_half_mean (aperture i idx pc) ndust_all) else NaN))
       \<and> (\<exists>opt. length opt = 3 \<and> npc = sort opt ! 1
            \<and> real_of_int npc = median_val (map real_of_int opt)
            \<and> (\<forall>t < 3. \<exists>idx k.
                  nearest_sky (float64_array master_sky_times)
                    (sci_times ! ([0, length sci_times div 2, length sci_times - 1] ! t)) = Inr idx
                \<and> opt ! t = candidate_npc n_sky new_sky npc0 ! k
                \<and> first_minimum
                     (map (\<lambda>pc. hmean_std
                                  (aperture ([0, length sci_times div 2, length sci_times - 1] ! t)
                                     idx pc) ndust_all)
                        (candidate_npc n_sky new_sky npc0)) k
                \<and> (0 < ndust_all
                     \<and> (\<forall>pc \<in> set (candidate_npc n_sky new_sky npc0). \<forall>dd < ndust_all.
                          aperture ([0, length sci_times div 2, length sci_times - 1] ! t) idx pc dd
                            \<noteq> []) \<longrightarrow>
                    (\<forall>c \<in> set (candidate_npc n_sky new_sky npc0).
                      spec_upper_half_mean
                        (aperture ([0, length sci_times div 2, length sci_times - 1] ! t) idx
                           (opt ! t)) ndust_all
                      \<le> spec_upper_half_mean
                          (aperture ([0, length sci_times div 2, length sci_times - 1] ! t) idx c)
                          ndust_all))))
       \<and> length outs = length sci_times
       \<and> (\<forall>sc < length sci_times. \<exists>idx.
             nearest_sky (float64_array master_sky_times) (sci_times ! sc) = Inr idx
           \<and> outs ! sc = pca sc idx npc)"
proof -
  have h: "\<forall>i idx pc. hmean_std (aperture i idx pc) ndust_all =
            (if 0 < ndust_all \<and> (\<forall>dd < ndust_all. aperture i idx pc dd \<noteq> [])
             then Fin (spec_upper_half_mean (aperture i idx pc) ndust_all) else NaN)"
    by (simp only: hmean_std_eq) simp
  from assms have ch: "choose_npc aperture ndust_all n_sky new_sky master_sky_times sci_times npc0
                       = Inr npc"
    and m: "map_err (\<lambda>sc. bind_err (nearest_sky (float64_array master_sky_times) (sci_times ! sc))
                       (\<lambda>idx_sky. Inr (pca sc idx_sky npc))) [0..<length sci_times] = Inr outs"
    by (auto simp: sky_subtr_pca_def bind_err_Inr_iff)
  let ?ti = "[0, length sci_times div 2, length sci_times - 1]"
  let ?nn = "candidate_npc n_sky new_sky npc0"
  from choose_npc_median [OF ch] obtain o0 o1 o2 where
    o: "npc_opt_cube aperture ndust_all ?nn master_sky_times sci_times 0 = Inr o0"
       "npc_opt_cube aperture ndust_all ?nn master_sky_times sci_times
          (length sci_times div 2) = Inr o1"
       "npc_opt_cube aperture ndust_all ?nn master_sky_times sci_times
          (length sci_times - 1) = Inr o2"
    and npc: "npc = sort [o0, o1, o2] ! 1" by blast
  have medv: "real_of_int npc = median_val (map real_of_int [o0, o1, o2])"
    using median_of_three [of o0 o1 o2] npc by (simp add: np_median_def)
  have each: "\<forall>t < 3. \<exists>idx k.
                  nearest_sky (float64_array master_sky_times) (sci_times ! (?ti ! t)) = Inr idx
                \<and> [o0, o1, o2] ! t = ?nn ! k
                \<and> first_minimum
                     (map (\<lambda>pc. hmean_std (aperture (?ti ! t) idx pc) ndust_all) ?nn) k
                \<and> (0 < ndust_all
                     \<and> (\<forall>pc \<in> set ?nn. \<forall>dd < ndust_all. aperture (?ti ! t) idx pc dd \<noteq> []) \<longrightarrow>
                    (\<forall>c \<in> set ?nn.
                      spec_upper_half_mean (aperture (?ti ! t) idx ([o0, o1, o2] ! t)) ndust_all
                      \<le> spec_upper_half_mean (aperture (?ti ! t) idx c) ndust_all))"
  proof (intro allI impI)
    fix t :: nat assume "t < 3"
    then consider "t = 0" | "t = 1" | "t = 2" by linarith
    then show "\<exists>idx k.
                  nearest_sky (float64_array master_sky_times) (sci_times ! (?ti ! t)) = Inr idx
                \<and> [o0, o1, o2] ! t = ?nn ! k
                \<and> first_minimum
                     (map (\<lambda>pc. hmean_std (aperture (?ti ! t) idx pc) ndust_all) ?nn) k
                \<and> (0 < ndust_all
                     \<and> (\<forall>pc \<in> set ?nn. \<forall>dd < ndust_all. aperture (?ti ! t) idx pc dd \<noteq> []) \<longrightarrow>
                    (\<forall>c \<in> set ?nn.
                      spec_upper_half_mean (aperture (?ti ! t) idx ([o0, o1, o2] ! t)) ndust_all
                      \<le> spec_upper_half_mean (aperture (?ti ! t) idx c) ndust_all))"
    proof cases
      case 1
      then show ?thesis using npc_opt_cube_first_minimum [OF o(1)] by simp
    next
      case 2
      then show ?thesis using npc_opt_cube_first_minimum [OF o(2)] by simp
    next
      case 3
      then show ?thesis using npc_opt_cube_first_minimum [OF o(3)] by simp
    qed
  qed
  have opt: "\<exists>opt. length opt = 3 \<and> npc = sort opt ! 1
            \<and> real_of_int npc = median_val (map real_of_int opt)
            \<and> (\<forall>t < 3. \<exists>idx k.
                  nearest_sky (float64_array master_sky_times) (sci_times ! (?ti ! t)) = Inr idx
                \<and> opt ! t = ?nn ! k
                \<and> first_minimum
                     (map (\<lambda>pc. hmean_std (aperture (?ti ! t) idx pc) ndust_all) ?nn) k
                \<and> (0 < ndust_all
                     \<and> (\<forall>pc \<in> set ?nn. \<forall>dd < ndust_all. aperture (?ti ! t) idx pc dd \<noteq> []) \<longrightarrow>
                    (\<forall>c \<in> set ?nn.
                      spec_upper_half_mean (aperture (?ti ! t) idx (opt ! t)) ndust_all
                      \<le> spec_upper_half_mean (aperture (?ti ! t) idx c) ndust_all)))"
    using npc medv each by (intro exI [of _ "[o0, o1, o2]"]) simp
  from map_err_Inr [OF m] have len: "length outs = length sci_times"
    and e: "\<forall>sc < length sci_times.
              bind_err (nearest_sky (float64_array master_sky_times) (sci_times ! sc))
                (\<lambda>idx_sky. Inr (pca sc idx_sky npc)) = Inr (outs ! sc)"
    by simp_all
  have all: "\<forall>sc < length sci_times. \<exists>idx.
             nearest_sky (float64_array master_sky_times) (sci_times ! sc) = Inr idx
           \<and> outs ! sc = pca sc idx npc"
  proof (intro allI impI)
    fix sc assume "sc < length sci_times"
    then have "bind_err (nearest_sky (float64_array master_sky_times) (sci_times ! sc))
                (\<lambda>idx_sky. Inr (pca sc idx_sky npc)) = Inr (outs ! sc)" using e by blast
    then show "\<exists>idx. nearest_sky (float64_array master_sky_times) (sci_times ! sc) = Inr idx
           \<and> outs ! sc = pca sc idx npc"
      by (auto simp: bind_err_Inr_iff)
  qed
  show ?thesis using h opt len all by blast
qed

theorem pca_rank_median_of_optima_witness:
  "sky_subtr_pca (\<lambda>sc idx_sky npc. (sc, idx_sky, npc)) rank_apertures 2 2 2 [0, 6]
     [1, 2, 3, 4, 5] (Some [1, 2, 3, 10])
     = Inr (2, [(0, 0, 2), (1, 0, 2), (2, 0, 2), (3, 1, 2), (4, 1, 2)])
   \<and> candidate_npc 2 2 (Some [1, 2, 3, 10]) = [1, 2, 3]
   \<and> npc_opt_cube rank_apertures 2 [1, 2, 3] [0, 6] [1, 2, 3, 4, 5] 0 = Inr 1
   \<and> npc_opt_cube rank_apertures 2 [1, 2, 3] [0, 6] [1, 2, 3, 4, 5] 2 = Inr 3
   \<and> npc_opt_cube rank_apertures 2 [1, 2, 3] [0, 6] [1, 2, 3, 4, 5] 4 = Inr 2
   \<and> median_val (map real_of_int [1, 3, 2]) = 2
   \<and> hmean_std (rank_apertures 0 0 1) 2 = Fin (spec_upper_half_mean (rank_apertures 0 0 1) 2)
   \<and> hmean_std (rank_apertures 0 0 1) 2 = Fin 2
   \<and> hmean_std (rank_apertures 0 0 2) 2 = Fin 3
   \<and> mean_val (map (\<lambda>dd. std_val (rank_apertures 0 0 2 dd)) [0..<2]) < 2
   \<and> length [(0 :: nat, 0 :: int, 2 :: int), (1, 0, 2), (2, 0, 2), (3, 1, 2), (4, 1, 2)]
       = length [1, 2, 3, 4, 5 :: real]"
proof -
  note t = pca_rank_median_of_optima [OF rank_run]
  have ne: "\<forall>dd < 2. rank_apertures 0 0 1 dd \<noteq> []" by (simp add: rank_apertures_def)
  from t have "hmean_std (rank_apertures 0 0 1) 2 =
            (if 0 < (2 :: nat) \<and> (\<forall>dd < 2. rank_apertures 0 0 1 dd \<noteq> [])
             then Fin (spec_upper_half_mean (rank_apertures 0 0 1) 2) else NaN)"
    by blast
  then have a: "hmean_std (rank_apertures 0 0 1) 2
                  = Fin (spec_upper_half_mean (rank_apertures 0 0 1) 2)"
    using ne by simp
  from t have l: "length [(0 :: nat, 0 :: int, 2 :: int), (1, 0, 2), (2, 0, 2), (3, 1, 2), (4, 1, 2)]
       = length [1, 2, 3, 4, 5 :: real]" by blast
  have s: "hmean_std (rank_apertures 0 0 1) 2 = Fin 2" "hmean_std (rank_apertures 0 0 2) 2 = Fin 3"
    by (simp_all add: rank_statistics rank_best_def)
  have m: "mean_val (map (\<lambda>dd. std_val (rank_apertures 0 0 2 dd)) [0..<2]) < 2"
    by (simp add: rank_apertures_def rank_best_def aperture_stds mean_val_def
        upt_rec [of _ "numeral _"] upt_rec [of _ "Suc _"])
  have md: "median_val (map real_of_int [1, 3, 2]) = 2" by (simp add: median_val_def)
  show ?thesis using rank_run rank_candidates rank_optima a l s m md by simp
qed

end
